theory Spec2Isabelle
  imports Complex_Main "HOL-Library.Char_ord" "HOL-Library.List_Lexorder"
    "HOL-Library.Product_Lexorder"
begin

section \<open>Tables and series\<close>

text \<open>
  A pandas DataFrame is a list of rows in row order; its index is the default one, so
  the label of a row is its position. A date is a day number (the loader parses dates
  with the day-granular format \<open>%d-%b-%y\<close>), and the difference of two dates in days
  is the difference of the numbers. Money amounts of the KPI calculator are finite
  and computed exactly: the type \<open>real\<close> has no NaN, no infinity and no rounding.
\<close>

record dated =
  Date :: int

record trade = dated +
  pnl :: real
  entry_cost :: real

record daily = trade +
  cumulative_pnl :: real
  running_max :: real
  drawdown :: real

record kpis =
  win_rate :: real
  total_trades :: nat
  wins :: nat
  losses :: nat
  gross_pnl :: real
  commissions :: real
  net_pnl :: real
  max_drawdown :: real
  max_drawdown_pct :: real
  recovery_days :: int
  date_start :: "int option"
  date_end :: "int option"
  daily_data :: "daily list"

text \<open>\<open>Series.cumsum\<close> and \<open>Series.cummax\<close>: a running fold that keeps every prefix value.\<close>

fun scan :: "(real \<Rightarrow> real \<Rightarrow> real) \<Rightarrow> real \<Rightarrow> real list \<Rightarrow> real list" where
  "scan f a [] = []"
| "scan f a (x # xs) = f a x # scan f (f a x) xs"

fun cumsum :: "real list \<Rightarrow> real list" where
  "cumsum [] = []"
| "cumsum (x # xs) = x # scan (+) x xs"

fun cummax :: "real list \<Rightarrow> real list" where
  "cummax [] = []"
| "cummax (x # xs) = x # scan max x xs"

text \<open>\<open>Series.min\<close> and \<open>Series.max\<close> of a non-empty series (the only use here).\<close>

definition series_min :: "'a::linorder list \<Rightarrow> 'a" where
  "series_min xs = fold min (tl xs) (hd xs)"

definition series_max :: "'a::linorder list \<Rightarrow> 'a" where
  "series_max xs = fold max (tl xs) (hd xs)"

text \<open>\<open>Series.idxmin\<close>: the label (here the position) of the first occurrence of the minimum.\<close>

fun first_index :: "('a \<Rightarrow> bool) \<Rightarrow> 'a list \<Rightarrow> nat" where
  "first_index P [] = 0"
| "first_index P (x # xs) = (if P x then 0 else Suc (first_index P xs))"

definition idxmin :: "real list \<Rightarrow> nat" where
  "idxmin xs = first_index (\<lambda>x. x = series_min xs) xs"

section \<open>KPI calculator (\<open>nadex_common/kpi_calculator.py\<close>)\<close>

text \<open>
  \<open>trades.groupby('Date').agg({'pnl': 'sum', 'entry_cost': 'sum'}).reset_index()\<close>:
  one row per distinct date, the groups in ascending order of the key.
\<close>

definition groupby_Date_sum :: "trade list \<Rightarrow> trade list" where
  "groupby_Date_sum trades =
     map (\<lambda>d. \<lparr>Date = d,
                pnl = sum_list (map pnl (filter (\<lambda>t. Date t = d) trades)),
                entry_cost = sum_list (map entry_cost (filter (\<lambda>t. Date t = d) trades))\<rparr>)
       (sort (remdups (map Date trades)))"

text \<open>The columns \<open>cumulative_pnl\<close>, \<open>running_max\<close> and \<open>drawdown\<close> added to the daily table.\<close>

definition drawdown_columns :: "trade list \<Rightarrow> daily list" where
  "drawdown_columns trades_by_date =
     (let cum = cumsum (map pnl trades_by_date);
          peak = cummax cum
      in map (\<lambda>(t, c, m).
                \<lparr>Date = Date t, pnl = pnl t, entry_cost = entry_cost t,
                 cumulative_pnl = c, running_max = m, drawdown = c - m\<rparr>)
           (zip trades_by_date (zip cum peak)))"

text \<open>
  Recovery time: the slice \<open>trades_by_date.loc[max_dd_idx:]\<close> starts at the row of
  the maximum drawdown; the first of its rows with \<open>drawdown >= 0\<close> gives the date.
  On a non-empty table of numbers \<open>idxmin\<close> is a label, so the test that
  \<open>max_dd_idx\<close> is neither \<open>None\<close> nor NaN holds.
\<close>

definition recovery :: "daily list \<Rightarrow> int" where
  "recovery trades_by_date =
     (let max_dd_idx = idxmin (map drawdown trades_by_date);
          post_dd = drop max_dd_idx trades_by_date;
          recovered = filter (\<lambda>r. drawdown r \<ge> 0) post_dd
      in if length recovered > 0
         then Date (hd recovered) - Date (trades_by_date ! max_dd_idx)
         else 0)"

definition calculate_kpis :: "trade list \<Rightarrow> real \<Rightarrow> kpis" where
  "calculate_kpis trades commission_per_contract =
     (if trades = [] then
        \<lparr>win_rate = 0, total_trades = 0, wins = 0, losses = 0, gross_pnl = 0,
         commissions = 0, net_pnl = 0, max_drawdown = 0, max_drawdown_pct = 0,
         recovery_days = 0, date_start = None, date_end = None, daily_data = []\<rparr>
      else
        let wins_rows = filter (\<lambda>t. pnl t > 0) trades;
            losses_rows = filter (\<lambda>t. pnl t \<le> 0) trades;
            total = length trades;
            win_count = length wins_rows;
            loss_count = length losses_rows;
            rate = (if total > 0 then real win_count / real total else 0);
            gross = sum_list (map pnl trades);
            comm = real total * commission_per_contract;
            net = gross - comm;
            trades_by_date = drawdown_columns (groupby_Date_sum trades);
            max_dd = series_min (map drawdown trades_by_date);
            peak = series_max (map running_max trades_by_date);
            max_dd_pct = (if peak > 0 then max_dd / peak * 100 else 0)
        in \<lparr>win_rate = rate, total_trades = total, wins = win_count, losses = loss_count,
            gross_pnl = gross, commissions = comm, net_pnl = net, max_drawdown = max_dd,
            max_drawdown_pct = max_dd_pct, recovery_days = recovery trades_by_date,
            date_start = Some (series_min (map Date trades)),
            date_end = Some (series_max (map Date trades)),
            daily_data = trades_by_date\<rparr>)"

section \<open>Floating-point values\<close>

text \<open>
  The script computes with IEEE doubles, and two of its results depend on what a
  division by zero and a NaN do. A double is modelled by its value: a finite number
  (\<open>Fin 0\<close> is \<open>+0.0\<close>), the negative zero, an infinity or NaN. The operations
  follow the IEEE rules for signs and special values; on finite values they are exact,
  so rounding and overflow are outside the model.
\<close>

datatype fl = Fin real | NegZero | PInf | NInf | NaN

fun sign_bit :: "fl \<Rightarrow> bool" where
  "sign_bit (Fin x) = (x < 0)"
| "sign_bit NegZero = True"
| "sign_bit PInf = False"
| "sign_bit NInf = True"
| "sign_bit NaN = False"

fun is_inf :: "fl \<Rightarrow> bool" where
  "is_inf PInf = True"
| "is_inf NInf = True"
| "is_inf _ = False"

text \<open>The value of a finite double; both zeros have the value 0.\<close>

fun val :: "fl \<Rightarrow> real" where
  "val (Fin x) = x"
| "val _ = 0"

definition is_zero :: "fl \<Rightarrow> bool" where
  "is_zero a = (a = Fin 0 \<or> a = NegZero)"

definition zero_of :: "bool \<Rightarrow> fl" where
  "zero_of negative = (if negative then NegZero else Fin 0)"

definition inf_of :: "bool \<Rightarrow> fl" where
  "inf_of negative = (if negative then NInf else PInf)"

fun fl_neg :: "fl \<Rightarrow> fl" where
  "fl_neg (Fin x) = (if x = 0 then NegZero else Fin (- x))"
| "fl_neg NegZero = Fin 0"
| "fl_neg PInf = NInf"
| "fl_neg NInf = PInf"
| "fl_neg NaN = NaN"

fun fl_add :: "fl \<Rightarrow> fl \<Rightarrow> fl" where
  "fl_add NaN _ = NaN"
| "fl_add _ NaN = NaN"
| "fl_add PInf NInf = NaN"
| "fl_add NInf PInf = NaN"
| "fl_add PInf _ = PInf"
| "fl_add _ PInf = PInf"
| "fl_add NInf _ = NInf"
| "fl_add _ NInf = NInf"
| "fl_add NegZero NegZero = NegZero"
| "fl_add a b = Fin (val a + val b)"

definition fl_sub :: "fl \<Rightarrow> fl \<Rightarrow> fl" where
  "fl_sub a b = fl_add a (fl_neg b)"

definition fl_mul :: "fl \<Rightarrow> fl \<Rightarrow> fl" where
  "fl_mul a b =
     (if a = NaN \<or> b = NaN then NaN
      else if (is_inf a \<and> is_zero b) \<or> (is_zero a \<and> is_inf b) then NaN
      else if is_inf a \<or> is_inf b then inf_of (sign_bit a \<noteq> sign_bit b)
      else if val a * val b = 0 then zero_of (sign_bit a \<noteq> sign_bit b)
      else Fin (val a * val b))"

definition fl_div :: "fl \<Rightarrow> fl \<Rightarrow> fl" where
  "fl_div a b =
     (if a = NaN \<or> b = NaN then NaN
      else if (is_inf a \<and> is_inf b) \<or> (is_zero a \<and> is_zero b) then NaN
      else if is_inf a \<or> is_zero b then inf_of (sign_bit a \<noteq> sign_bit b)
      else if is_inf b \<or> is_zero a then zero_of (sign_bit a \<noteq> sign_bit b)
      else Fin (val a / val b))"

text \<open>Comparisons: every comparison with NaN is false, and the two zeros are equal.\<close>

fun fl_lt :: "fl \<Rightarrow> fl \<Rightarrow> bool" where
  "fl_lt NaN _ = False"
| "fl_lt _ NaN = False"
| "fl_lt PInf _ = False"
| "fl_lt _ NInf = False"
| "fl_lt NInf _ = True"
| "fl_lt _ PInf = True"
| "fl_lt a b = (val a < val b)"

definition fl_gt :: "fl \<Rightarrow> fl \<Rightarrow> bool" where
  "fl_gt a b = fl_lt b a"

fun fl_sqrt :: "fl \<Rightarrow> fl" where
  "fl_sqrt (Fin x) = (if x < 0 then NaN else Fin (sqrt x))"
| "fl_sqrt NegZero = NegZero"
| "fl_sqrt PInf = PInf"
| "fl_sqrt NInf = NaN"
| "fl_sqrt NaN = NaN"

text \<open>
  Python's \<open>min(a, b)\<close> and \<open>max(a, b)\<close> keep the first argument unless the second
  compares smaller (greater); with a NaN they return the first argument.
\<close>

definition py_min :: "fl \<Rightarrow> fl \<Rightarrow> fl" where
  "py_min a b = (if fl_lt b a then b else a)"

definition py_max :: "fl \<Rightarrow> fl \<Rightarrow> fl" where
  "py_max a b = (if fl_gt b a then b else a)"

text \<open>
  The reductions of a pandas column skip NaN: \<open>sum\<close> of nothing is 0, \<open>mean\<close> of
  nothing is NaN, and the sample standard deviation needs two values.
\<close>

definition dropna :: "fl list \<Rightarrow> fl list" where
  "dropna xs = filter (\<lambda>x. x \<noteq> NaN) xs"

definition fl_sum :: "fl list \<Rightarrow> fl" where
  "fl_sum xs = foldl fl_add (Fin 0) (dropna xs)"

definition fl_mean :: "fl list \<Rightarrow> fl" where
  "fl_mean xs =
     (if dropna xs = [] then NaN
      else fl_div (fl_sum xs) (Fin (real (length (dropna xs)))))"

definition fl_std :: "fl list \<Rightarrow> fl" where
  "fl_std xs =
     (if length (dropna xs) \<le> 1 then NaN
      else fl_sqrt
             (fl_div
               (fl_sum (map (\<lambda>x. fl_mul (fl_sub x (fl_mean xs)) (fl_sub x (fl_mean xs)))
                  (dropna xs)))
               (Fin (real (length (dropna xs) - 1)))))"

section \<open>Exceptions\<close>

text \<open>The exceptions that the modelled functions raise, each with its message.\<close>

datatype exn =
    ValueError string
  | ZeroDivisionError string
  | ClientError string
  | ReadError string
  | FileNotFoundError string

section \<open>Simplified backtesting script (\<open>notebooks/archive/backtest_simplified.py\<close>)\<close>

subsection \<open>Daily aggregation\<close>

text \<open>
  A row of the historical price table. Tickers are compared as Python compares strings,
  character by character; expected value and strike price are finite numbers.
\<close>

record price_row = dated +
  Ticker :: string
  Exp_Value :: real
  Strike_Price :: real
  In_the_Money :: int

definition strike_distance :: "'a price_row_scheme \<Rightarrow> real" where
  "strike_distance r = \<bar>Exp_Value r - Strike_Price r\<bar>"

definition group_key :: "'a price_row_scheme \<Rightarrow> string \<times> int" where
  "group_key r = (Ticker r, Date r)"

text \<open>The labels of the rows of one \<open>(Ticker, Date)\<close> group, in row order.\<close>

definition group_labels :: "price_row list \<Rightarrow> string \<times> int \<Rightarrow> nat list" where
  "group_labels raw_data k =
     filter (\<lambda>i. group_key (raw_data ! i) = k) [0..<length raw_data]"

text \<open>
  \<open>groupby(['Ticker', 'Date'])['strike_distance'].idxmin()\<close> at one group: the label
  of the first row of the group whose distance is the least of the group.
\<close>

definition group_idxmin :: "price_row list \<Rightarrow> string \<times> int \<Rightarrow> nat" where
  "group_idxmin raw_data k =
     (let labels = group_labels raw_data k
      in labels ! idxmin (map (\<lambda>i. strike_distance (raw_data ! i)) labels))"

text \<open>
  The local variable \<open>daily_data\<close>: the groups come in ascending order of the key, and
  \<open>raw_data.loc[idx]\<close> reads the chosen rows. The column \<open>strike_distance\<close> that the
  function adds to its argument is dropped again and is not part of a row here.
\<close>

definition closest_rows :: "price_row list \<Rightarrow> price_row list" where
  "closest_rows raw_data =
     (let idx = map (group_idxmin raw_data) (sort (remdups (map group_key raw_data)))
      in map (\<lambda>i. raw_data ! i) idx)"

text \<open>
  Before it returns, the function prints the average number of days per ticker,
  \<open>len(daily_data) / daily_data['Ticker'].nunique()\<close>, a division of two Python
  integers: with no ticker it raises \<open>ZeroDivisionError\<close>. The result is sorted by
  \<open>(Ticker, Date)\<close> with a stable sort.
\<close>

definition aggregate_to_daily :: "price_row list \<Rightarrow> exn + price_row list" where
  "aggregate_to_daily raw_data =
     (let daily_data = closest_rows raw_data
      in if length (remdups (map Ticker daily_data)) = 0
         then Inl (ZeroDivisionError ''division by zero'')
         else Inr (sort_key group_key daily_data))"

subsection \<open>Probability-based pricing\<close>

text \<open>
  \<open>scipy.stats.norm.cdf\<close> is the distribution function of the standard normal
  distribution, \<open>1/2 + (1 / sqrt (2 pi)) * integral of exp (- t\<^sup>2 / 2) from 0 to x\<close>. The
  integral is given by its power series, which converges for every \<open>x\<close>. At the
  infinities the function is 1 and 0, and NaN is passed on.
\<close>

definition cdf_term :: "real \<Rightarrow> nat \<Rightarrow> real" where
  "cdf_term x n = (- 1) ^ n * x ^ (2 * n + 1) / (fact n * 2 ^ n * real (2 * n + 1))"

definition norm_cdf :: "real \<Rightarrow> real" where
  "norm_cdf x = 1 / 2 + (\<Sum>n. cdf_term x n) / sqrt (2 * pi)"

fun norm_cdf_fl :: "fl \<Rightarrow> fl" where
  "norm_cdf_fl (Fin x) = Fin (norm_cdf x)"
| "norm_cdf_fl NegZero = Fin (norm_cdf 0)"
| "norm_cdf_fl PInf = Fin 1"
| "norm_cdf_fl NInf = Fin 0"
| "norm_cdf_fl NaN = NaN"

definition calculate_probability_itm :: "real \<Rightarrow> real \<Rightarrow> real \<Rightarrow> fl" where
  "calculate_probability_itm exp_value strike_price volatility =
     (let volatility = (if volatility \<le> 0 then 0.01 else volatility);
          z_score = fl_div (fl_sub (Fin exp_value) (Fin strike_price))
                      (fl_mul (Fin strike_price) (Fin volatility));
          prob = norm_cdf_fl z_score
      in py_max (Fin 0.05) (py_min (Fin 0.95) prob))"

definition calculate_fair_entry_cost :: "real \<Rightarrow> real \<Rightarrow> real \<Rightarrow> real \<Rightarrow> fl \<times> fl" where
  "calculate_fair_entry_cost exp_value strike_price max_payout volatility =
     (let prob_itm = calculate_probability_itm exp_value strike_price volatility;
          entry_cost = fl_mul (Fin max_payout) prob_itm
      in (entry_cost, prob_itm))"

text \<open>
  The probability as the specification words it: the distribution function at
  \<open>z = (E - K) / (K * sigma)\<close>, clamped to \<open>[0.05, 0.95]\<close>, with \<open>sigma\<close> replaced by
  0.01 when \<open>sigma \<le> 0\<close>. It is compared with \<open>calculate_probability_itm\<close> below.
\<close>

definition spec_probability :: "real \<Rightarrow> real \<Rightarrow> real \<Rightarrow> real" where
  "spec_probability E K sigma =
     max 0.05 (min 0.95 (norm_cdf ((E - K) / (K * (if sigma \<le> 0 then 0.01 else sigma)))))"

subsection \<open>RSI strategy\<close>

text \<open>\<open>Series.diff\<close>: the first entry has no predecessor and is NaN.\<close>

definition diff :: "real list \<Rightarrow> fl list" where
  "diff prices =
     (case prices of
        [] \<Rightarrow> []
      | p # ps \<Rightarrow> NaN # map (\<lambda>(a, b). fl_sub (Fin b) (Fin a)) (zip prices ps))"

text \<open>
  \<open>rolling(window=period).mean()\<close>: the mean of the last \<open>window\<close> entries; NaN while
  fewer than \<open>window\<close> entries are there (\<open>min_periods\<close> is the window), for an empty
  window, and when the window holds a NaN.
\<close>

definition rolling_mean :: "nat \<Rightarrow> fl list \<Rightarrow> fl list" where
  "rolling_mean window xs =
     map (\<lambda>t. let w = take window (drop (t + 1 - window) xs)
               in if 0 < window \<and> window \<le> t + 1 \<and> NaN \<notin> set w
                  then fl_div (foldl fl_add (Fin 0) w) (Fin (real window))
                  else NaN)
       [0..<length xs]"

text \<open>
  The local variables \<open>gain\<close> and \<open>loss\<close> of \<open>calculate_rsi\<close>. In
  \<open>delta.where(delta > 0, 0)\<close> the NaN of the first entry fails the test and becomes 0.
\<close>

definition rsi_gain :: "real list \<Rightarrow> nat \<Rightarrow> fl list" where
  "rsi_gain prices period =
     rolling_mean period (map (\<lambda>d. if fl_gt d (Fin 0) then d else Fin 0) (diff prices))"

definition rsi_loss :: "real list \<Rightarrow> nat \<Rightarrow> fl list" where
  "rsi_loss prices period =
     map fl_neg
       (rolling_mean period (map (\<lambda>d. if fl_lt d (Fin 0) then d else Fin 0) (diff prices)))"

definition calculate_rsi :: "real list \<Rightarrow> nat \<Rightarrow> fl list" where
  "calculate_rsi prices period =
     (let gain = rsi_gain prices period;
          loss = rsi_loss prices period;
          rs = map (\<lambda>(g, l). fl_div g l) (zip gain loss);
          rsi = map (\<lambda>r. fl_sub (Fin 100) (fl_div (Fin 100) (fl_add (Fin 1) r))) rs
      in rsi)"

record signal_row = price_row +
  rsi :: fl
  signal :: int

text \<open>The signal is set to 0, then to 1 where oversold, then to -1 where overbought.\<close>

definition generate_rsi_signals ::
    "price_row list \<Rightarrow> nat \<Rightarrow> real \<Rightarrow> real \<Rightarrow> signal_row list" where
  "generate_rsi_signals data period oversold overbought =
     map (\<lambda>(r, v).
            let s0 = 0;
                s1 = (if fl_lt v (Fin oversold) then 1 else s0);
                s2 = (if fl_gt v (Fin overbought) then - 1 else s1)
            in \<lparr>Date = Date r, Ticker = Ticker r, Exp_Value = Exp_Value r,
                Strike_Price = Strike_Price r, In_the_Money = In_the_Money r,
                rsi = v, signal = s2\<rparr>)
       (zip data (calculate_rsi (map Exp_Value data) period))"

subsection \<open>Backtesting engine\<close>

text \<open>
  A row of the backtest result. The columns \<open>entry_cost\<close>, \<open>probability_itm\<close> and
  \<open>pnl\<close> are written only on the rows with a signal and are NaN on the others.
\<close>

record result_row = signal_row +
  bt_entry_cost :: fl
  bt_probability_itm :: fl
  bt_pnl :: fl

text \<open>\<open>Series.unique\<close>: the distinct values in order of first appearance.\<close>

definition unique :: "'a list \<Rightarrow> 'a list" where
  "unique xs = rev (remdups (rev xs))"

definition price_trade :: "real \<Rightarrow> signal_row \<Rightarrow> result_row" where
  "price_trade volatility row =
     (if signal row \<noteq> 0 then
        let (entry_cost, prob) =
              calculate_fair_entry_cost (Exp_Value row) (Strike_Price row) 10.0 volatility;
            pnl = (if In_the_Money row = 1 then fl_sub (Fin 10.0) entry_cost
                   else fl_neg entry_cost)
        in \<lparr>Date = Date row, Ticker = Ticker row, Exp_Value = Exp_Value row,
            Strike_Price = Strike_Price row, In_the_Money = In_the_Money row,
            rsi = rsi row, signal = signal row,
            bt_entry_cost = entry_cost, bt_probability_itm = prob, bt_pnl = pnl\<rparr>
      else
        \<lparr>Date = Date row, Ticker = Ticker row, Exp_Value = Exp_Value row,
         Strike_Price = Strike_Price row, In_the_Money = In_the_Money row,
         rsi = rsi row, signal = signal row,
         bt_entry_cost = NaN, bt_probability_itm = NaN, bt_pnl = NaN\<rparr>)"

text \<open>The body of the loop over the tickers: the rows of one ticker, with signals and prices.\<close>

definition backtest_ticker ::
    "price_row list \<Rightarrow> nat \<Rightarrow> real \<Rightarrow> real \<Rightarrow> real \<Rightarrow> string \<Rightarrow> result_row list" where
  "backtest_ticker data rsi_period oversold overbought volatility ticker =
     (let ticker_data = filter (\<lambda>r. Ticker r = ticker) data;
          ticker_data = generate_rsi_signals ticker_data rsi_period oversold overbought
      in map (price_trade volatility) ticker_data)"

text \<open>\<open>pd.concat\<close> of an empty list of frames raises \<open>ValueError\<close>.\<close>

definition backtest_strategy ::
    "price_row list \<Rightarrow> nat \<Rightarrow> real \<Rightarrow> real \<Rightarrow> real \<Rightarrow> exn + result_row list" where
  "backtest_strategy data rsi_period oversold overbought volatility =
     (let all_results =
            map (backtest_ticker data rsi_period oversold overbought volatility)
              (unique (map Ticker data))
      in if all_results = [] then Inl (ValueError ''No objects to concatenate'')
         else Inr (concat all_results))"

subsection \<open>Performance metrics\<close>

text \<open>
  The dictionary that \<open>calculate_metrics\<close> returns, as the list of its items: a count
  (a Python \<open>int\<close>) or a float under each key.
\<close>

datatype metric = Count nat | Num fl

definition calculate_metrics :: "result_row list \<Rightarrow> (string \<times> metric) list" where
  "calculate_metrics backtest_results =
     (let trades = filter (\<lambda>r. signal r \<noteq> 0) backtest_results
      in if length trades = 0 then
           [(''total_trades'', Count 0), (''win_rate'', Count 0), (''total_pnl'', Count 0)]
         else
           let wins = filter (\<lambda>r. fl_gt (bt_pnl r) (Fin 0)) trades;
               losses = filter (\<lambda>r. fl_lt (bt_pnl r) (Fin 0)) trades
           in [(''total_trades'', Count (length trades)),
               (''winning_trades'', Count (length wins)),
               (''losing_trades'', Count (length losses)),
               (''win_rate'', Num (Fin (real (length wins) / real (length trades)))),
               (''total_pnl'', Num (fl_sum (map bt_pnl trades))),
               (''avg_win'', if length wins > 0 then Num (fl_mean (map bt_pnl wins)) else Count 0),
               (''avg_loss'',
                  if length losses > 0 then Num (fl_mean (map bt_pnl losses)) else Count 0),
               (''avg_entry_cost'', Num (fl_mean (map bt_entry_cost trades))),
               (''total_capital'', Num (fl_sum (map bt_entry_cost trades))),
               (''total_return_pct'',
                  if fl_gt (fl_sum (map bt_entry_cost trades)) (Fin 0)
                  then Num (fl_mul (fl_div (fl_sum (map bt_pnl trades))
                                      (fl_sum (map bt_entry_cost trades))) (Fin 100))
                  else Count 0),
               (''sharpe_ratio'',
                  if length trades > 1 \<and> fl_gt (fl_std (map bt_pnl trades)) (Fin 0)
                  then Num (fl_mul (fl_div (fl_mean (map bt_pnl trades))
                                      (fl_std (map bt_pnl trades))) (Fin (sqrt 252)))
                  else Count 0)])"

section \<open>Results container (\<open>nadex_common/backtest_results.py\<close>)\<close>

text \<open>
  The blob store: \<open>s3_client.get_object(Bucket=b, Key=k)\<close> returns the body stored in
  bucket \<open>b\<close> under key \<open>k\<close> and raises a \<open>ClientError\<close> when there is none. Every
  exception carries its message.
\<close>

type_synonym s3 = "string \<Rightarrow> string \<rightharpoonup> string"

fun str :: "exn \<Rightarrow> string" where
  "str (ValueError m) = m"
| "str (ZeroDivisionError m) = m"
| "str (ClientError m) = m"
| "str (ReadError m) = m"
| "str (FileNotFoundError m) = m"

definition get_object :: "s3 \<Rightarrow> string \<Rightarrow> string \<Rightarrow> exn + string" where
  "get_object s3_client bucket key =
     (case s3_client bucket key of
        None \<Rightarrow>
          Inl (ClientError
            (''An error occurred (NoSuchKey) when calling the GetObject operation: ''
             @ ''The specified key does not exist.''))
      | Some body \<Rightarrow> Inr body)"

text \<open>
  The value under a key of the loaded KPI dictionary is a JSON value or, under
  \<open>daily_data\<close>, the daily table.
\<close>

datatype ('j, 'tbl) kpi_value = Json 'j | Frame 'tbl

text \<open>
  The fields \<open>trades\<close>, \<open>kpis\<close>, \<open>daily_metrics\<close>, \<open>strategy_params\<close> and
  \<open>generated_at\<close> of the dataclass.
\<close>

record ('j, 'tbl) BacktestResults =
  res_trades :: 'tbl
  res_kpis :: "string \<rightharpoonup> ('j, 'tbl) kpi_value"
  res_daily_metrics :: 'tbl
  res_strategy_params :: "('j, 'tbl) kpi_value"
  res_generated_at :: "('j, 'tbl) kpi_value"

text \<open>\<open>folder = date if date else "latest"\<close>: no date and the empty date both mean the latest run.\<close>

definition folder_path :: "string \<Rightarrow> string option \<Rightarrow> string" where
  "folder_path prefix date =
     (let folder = (case date of None \<Rightarrow> ''latest'' | Some d \<Rightarrow> if d = [] then ''latest'' else d)
      in prefix @ ''/'' @ folder)"

text \<open>
  One \<open>try\<close> block of \<open>load_from_s3\<close>: the body is fetched and read; whatever is
  raised in the block is caught (\<open>except Exception as e\<close>) and a \<open>FileNotFoundError\<close>
  is raised in its place.
\<close>

definition try_load ::
    "s3 \<Rightarrow> string \<Rightarrow> string \<Rightarrow> string \<Rightarrow> (string \<Rightarrow> exn + 'a) \<Rightarrow> exn + 'a" where
  "try_load s3_client bucket what key read =
     (case (case get_object s3_client bucket key of Inl e \<Rightarrow> Inl e | Inr body \<Rightarrow> read body) of
        Inl e \<Rightarrow> Inl (FileNotFoundError (''Could not load '' @ what @ '' from '' @ key @ '': '' @ str e))
      | Inr v \<Rightarrow> Inr v)"

text \<open>
  \<open>pandas.read_csv\<close> with the conversion of the \<open>Date\<close> column, and \<open>json.loads\<close>
  with the conversion of the two date fields, are library code: \<open>read_csv\<close> and
  \<open>read_json\<close> stand for what each \<open>try\<close> block does with a body, and may raise.
  \<open>no_params\<close> is the empty dictionary and \<open>now\<close> the current time, the defaults of
  the two \<open>pop\<close> calls.
\<close>

definition load_from_s3 ::
    "(string \<Rightarrow> exn + 'tbl) \<Rightarrow> (string \<Rightarrow> exn + (string \<rightharpoonup> 'j)) \<Rightarrow> 'j \<Rightarrow> 'j \<Rightarrow>
     s3 \<Rightarrow> string \<Rightarrow> string option \<Rightarrow> string \<Rightarrow> exn + ('j, 'tbl) BacktestResults" where
  "load_from_s3 read_csv read_json no_params now s3_client bucket date prefix =
     (let trades_key = folder_path prefix date @ ''/trades.csv'' in
      case try_load s3_client bucket ''trades'' trades_key read_csv of
        Inl e \<Rightarrow> Inl e
      | Inr trades_tbl \<Rightarrow>
     (let kpi_key = folder_path prefix date @ ''/kpi_summary.json'' in
      case try_load s3_client bucket ''KPIs'' kpi_key read_json of
        Inl e \<Rightarrow> Inl e
      | Inr kpis_json \<Rightarrow>
     (let daily_key = folder_path prefix date @ ''/daily_metrics.csv'' in
      case try_load s3_client bucket ''daily metrics'' daily_key read_csv of
        Inl e \<Rightarrow> Inl e
      | Inr daily_tbl \<Rightarrow>
          let kpis0 = (map_option Json \<circ> kpis_json)(''daily_data'' \<mapsto> Frame daily_tbl);
              params = (case kpis0 ''strategy_params'' of None \<Rightarrow> Json no_params | Some v \<Rightarrow> v);
              kpis1 = kpis0(''strategy_params'' := None);
              stamp = (case kpis1 ''generated_at'' of None \<Rightarrow> Json now | Some v \<Rightarrow> v);
              kpis2 = kpis1(''generated_at'' := None)
          in Inr \<lparr>res_trades = trades_tbl, res_kpis = kpis2, res_daily_metrics = daily_tbl,
                  res_strategy_params = params, res_generated_at = stamp\<rparr>)))"

section \<open>Concrete inputs\<close>

text \<open>
  The scenario of the specification: daily cumulative P&L 10, 5, -2, 0, 8 (two trades
  share the date 3), and the same trades followed by one that reaches a new peak.
\<close>

definition scenario_trades :: "trade list" where
  "scenario_trades =
     [\<lparr>Date = 3, pnl = 5, entry_cost = 5\<rparr>, \<lparr>Date = 1, pnl = 10, entry_cost = 5\<rparr>,
      \<lparr>Date = 3, pnl = -10, entry_cost = 5\<rparr>, \<lparr>Date = 4, pnl = -7, entry_cost = 5\<rparr>,
      \<lparr>Date = 5, pnl = 2, entry_cost = 5\<rparr>, \<lparr>Date = 9, pnl = 8, entry_cost = 5\<rparr>]"


text \<open>A raw price table with several strikes per ticker and day, and a tie.\<close>

definition sample_raw :: "price_row list" where
  "sample_raw = [
  \<lparr>Date = 2, Ticker = ''B'', Exp_Value = 100, Strike_Price = 103, In_the_Money = 0\<rparr>,
  \<lparr>Date = 1, Ticker = ''B'', Exp_Value = 100, Strike_Price = 99, In_the_Money = 1\<rparr>,
  \<lparr>Date = 2, Ticker = ''AB'', Exp_Value = 100, Strike_Price = 102, In_the_Money = 0\<rparr>,
  \<lparr>Date = 2, Ticker = ''B'', Exp_Value = 100, Strike_Price = 99, In_the_Money = 1\<rparr>,
  \<lparr>Date = 2, Ticker = ''AB'', Exp_Value = 100, Strike_Price = 101, In_the_Money = 0\<rparr>,
  \<lparr>Date = 2, Ticker = ''B'', Exp_Value = 100, Strike_Price = 101, In_the_Money = 0\<rparr>]"

text \<open>The daily table of the sample, and a table with one row per pair that is not in key order.\<close>

definition sample_daily :: "price_row list" where
  "sample_daily = [
  \<lparr>Date = 2, Ticker = ''AB'', Exp_Value = 100, Strike_Price = 101, In_the_Money = 0\<rparr>,
  \<lparr>Date = 1, Ticker = ''B'', Exp_Value = 100, Strike_Price = 99, In_the_Money = 1\<rparr>,
  \<lparr>Date = 2, Ticker = ''B'', Exp_Value = 100, Strike_Price = 99, In_the_Money = 1\<rparr>]"

definition unsorted_daily :: "price_row list" where
  "unsorted_daily = [
  \<lparr>Date = 1, Ticker = ''B'', Exp_Value = 100, Strike_Price = 99, In_the_Money = 1\<rparr>,
  \<lparr>Date = 1, Ticker = ''A'', Exp_Value = 100, Strike_Price = 101, In_the_Money = 0\<rparr>]"

text \<open>A ticker with two observations, fewer than the default RSI period of 14.\<close>

definition short_data :: "price_row list" where
  "short_data =
     [\<lparr>Date = 1, Ticker = ''A'', Exp_Value = 100, Strike_Price = 100, In_the_Money = 1\<rparr>,
      \<lparr>Date = 2, Ticker = ''A'', Exp_Value = 90, Strike_Price = 100, In_the_Money = 0\<rparr>]"

text \<open>Backtest rows with a winning trade, a trade of P&L 0, a row without signal and a losing trade.\<close>

definition zero_pnl_rows :: "result_row list" where
  "zero_pnl_rows =
     [\<lparr>Date = 1, Ticker = ''A'', Exp_Value = 100, Strike_Price = 100, In_the_Money = 1,
       rsi = Fin 20, signal = 1, bt_entry_cost = Fin 5, bt_probability_itm = Fin (1 / 2),
       bt_pnl = Fin 5\<rparr>,
      \<lparr>Date = 2, Ticker = ''A'', Exp_Value = 100, Strike_Price = 100, In_the_Money = 0,
       rsi = Fin 80, signal = - 1, bt_entry_cost = Fin 5, bt_probability_itm = Fin (1 / 2),
       bt_pnl = Fin 0\<rparr>,
      \<lparr>Date = 3, Ticker = ''A'', Exp_Value = 100, Strike_Price = 100, In_the_Money = 0,
       rsi = Fin 50, signal = 0, bt_entry_cost = NaN, bt_probability_itm = NaN,
       bt_pnl = NaN\<rparr>,
      \<lparr>Date = 4, Ticker = ''A'', Exp_Value = 100, Strike_Price = 100, In_the_Money = 0,
       rsi = Fin 10, signal = 1, bt_entry_cost = Fin 5, bt_probability_itm = Fin (1 / 2),
       bt_pnl = Fin (- 5)\<rparr>]"

text \<open>A store whose latest run lacks the KPI summary.\<close>

definition sample_store :: s3 where
  "sample_store = (\<lambda>bucket.
      if bucket = ''nadex'' then
        [''backtest/results/latest/trades.csv'' \<mapsto> ''Date,pnl'',
         ''backtest/results/latest/daily_metrics.csv'' \<mapsto> ''Date,pnl'']
      else Map.empty)"

section \<open>Facts about series\<close>

lemma length_scan: "length (scan f a xs) = length xs"
  by (induction xs arbitrary: a) simp_all

lemma scan_add_nth: "i < length xs \<Longrightarrow> scan (+) a xs ! i = a + sum_list (take (Suc i) xs)"
proof (induction xs arbitrary: a i)
  case Nil
  then show ?case by simp
next
  case (Cons x xs)
  then show ?case by (cases i) (simp_all add: add.assoc)
qed

lemma scan_max_nth: "i < length xs \<Longrightarrow> scan max a xs ! i = Max (insert a (set (take (Suc i) xs)))"
proof (induction xs arbitrary: a i)
  case Nil
  then show ?case by simp
next
  case (Cons x xs)
  show ?case
  proof (cases i)
    case 0
    then show ?thesis by (simp add: max.commute)
  next
    case (Suc j)
    with Cons.prems have j: "j < length xs" by simp
    have "Max (insert (max a x) (set (take (Suc j) xs))) = Max (insert a (insert x (set (take (Suc j) xs))))"
      by (cases "set (take (Suc j) xs) = {}") (simp_all add: max.assoc)
    with Cons.IH [OF j, of "max a x"] Suc show ?thesis by simp
  qed
qed

lemma length_cumsum: "length (cumsum xs) = length xs"
  by (cases xs) (simp_all add: length_scan)

lemma length_cummax: "length (cummax xs) = length xs"
  by (cases xs) (simp_all add: length_scan)

lemma cumsum_nth: "i < length xs \<Longrightarrow> cumsum xs ! i = sum_list (take (Suc i) xs)"
proof (cases xs)
  case Nil
  then show "i < length xs \<Longrightarrow> ?thesis" by simp
next
  case (Cons x ys)
  then show "i < length xs \<Longrightarrow> ?thesis" by (cases i) (simp_all add: scan_add_nth)
qed

lemma cummax_nth: "i < length xs \<Longrightarrow> cummax xs ! i = Max (set (take (Suc i) xs))"
proof (cases xs)
  case Nil
  then show "i < length xs \<Longrightarrow> ?thesis" by simp
next
  case (Cons x ys)
  then show "i < length xs \<Longrightarrow> ?thesis" by (cases i) (simp_all add: scan_max_nth)
qed

lemma series_min_Min: "xs \<noteq> [] \<Longrightarrow> series_min xs = Min (set xs)"
proof (cases xs)
  case Nil
  then show "xs \<noteq> [] \<Longrightarrow> ?thesis" by simp
next
  case (Cons x ys)
  then show ?thesis using Min.set_eq_fold [of x ys] by (simp add: series_min_def)
qed

lemma series_max_Max: "xs \<noteq> [] \<Longrightarrow> series_max xs = Max (set xs)"
proof (cases xs)
  case Nil
  then show "xs \<noteq> [] \<Longrightarrow> ?thesis" by simp
next
  case (Cons x ys)
  then show ?thesis using Max.set_eq_fold [of x ys] by (simp add: series_max_def)
qed

lemma sum_list_take_Suc: "i < length xs \<Longrightarrow> sum_list (take (Suc i) xs) = (\<Sum>j\<le>i. xs ! j)" for xs :: "real list"
proof -
  assume i: "i < length xs"
  have "sum_list (take (Suc i) xs) = (\<Sum>j = 0..<length (take (Suc i) xs). take (Suc i) xs ! j)"
    by (rule sum_list_sum_nth)
  also have "\<dots> = (\<Sum>j = 0..<Suc i. xs ! j)"
    using i by (intro sum.cong) auto
  also have "{0..<Suc i} = {..i}"
    by auto
  finally show ?thesis .
qed

lemma set_take_Suc: "i < length xs \<Longrightarrow> set (take (Suc i) xs) = (\<lambda>j. xs ! j) ` {..i}"
proof -
  assume i: "i < length xs"
  then have "(!) xs ` {0..<Suc i} = set (take (Suc i) xs)"
    by (intro nth_image) simp
  moreover have "{0..<Suc i} = {..i}"
    by auto
  ultimately show ?thesis by simp
qed

lemma first_index_found:
  "\<exists>x\<in>set xs. P x \<Longrightarrow>
     first_index P xs < length xs \<and> P (xs ! first_index P xs) \<and>
     (\<forall>i<first_index P xs. \<not> P (xs ! i))"
proof (induction xs)
  case Nil
  then show ?case by simp
next
  case (Cons x xs)
  show ?case
  proof (cases "P x")
    case True
    then show ?thesis by simp
  next
    case False
    with Cons.prems have "\<exists>x\<in>set xs. P x" by simp
    from Cons.IH [OF this] False show ?thesis
      by (auto simp add: less_Suc_eq_0_disj)
  qed
qed


section \<open>Properties of the KPI calculator\<close>

lemma length_drawdown_columns: "length (drawdown_columns T) = length T"
  by (simp add: drawdown_columns_def Let_def length_cumsum length_cummax)

lemma drawdown_columns_nth:
  assumes "i < length T"
  shows "drawdown_columns T ! i =
    \<lparr>Date = Date (T ! i), pnl = pnl (T ! i), entry_cost = entry_cost (T ! i),
     cumulative_pnl = cumsum (map pnl T) ! i,
     running_max = cummax (cumsum (map pnl T)) ! i,
     drawdown = cumsum (map pnl T) ! i - cummax (cumsum (map pnl T)) ! i\<rparr>"
  using assms by (simp add: drawdown_columns_def Let_def length_cumsum length_cummax)

lemma groupby_Date_sum_nonempty:
  assumes "trades \<noteq> []"
  shows "groupby_Date_sum trades \<noteq> []"
proof -
  have "set (sort (remdups (map Date trades))) \<noteq> {}"
    using assms by simp
  then have "sort (remdups (map Date trades)) \<noteq> []"
    by (metis set_empty)
  then show ?thesis
    by (simp add: groupby_Date_sum_def)
qed

lemma daily_columns:
  assumes i: "i < length T"
  defines "D \<equiv> drawdown_columns T"
  shows "cumulative_pnl (D ! i) = (\<Sum>j\<le>i. pnl (D ! j))"
    and "running_max (D ! i) = Max ((\<lambda>j. cumulative_pnl (D ! j)) ` {..i})"
    and "drawdown (D ! i) = cumulative_pnl (D ! i) - running_max (D ! i)"
    and "drawdown (D ! i) \<le> 0"
proof -
  let ?cum = "cumsum (map pnl T)"
  have len: "length ?cum = length T"
    by (simp add: length_cumsum)
  have cumD: "cumulative_pnl (D ! j) = ?cum ! j" if "j < length T" for j
    using that by (simp add: D_def drawdown_columns_nth)
  have pnlD: "pnl (D ! j) = pnl (T ! j)" if "j < length T" for j
    using that by (simp add: D_def drawdown_columns_nth)
  have "?cum ! i = sum_list (take (Suc i) (map pnl T))"
    using i by (simp add: cumsum_nth)
  also have "\<dots> = (\<Sum>j\<le>i. map pnl T ! j)"
    using i by (simp add: sum_list_take_Suc)
  also have "\<dots> = (\<Sum>j\<le>i. pnl (D ! j))"
    using i by (intro sum.cong) (simp_all add: pnlD)
  finally show "cumulative_pnl (D ! i) = (\<Sum>j\<le>i. pnl (D ! j))"
    using i by (simp add: cumD)
  have rm: "running_max (D ! i) = Max (set (take (Suc i) ?cum))"
    using i len by (simp add: D_def drawdown_columns_nth cummax_nth)
  have img: "set (take (Suc i) ?cum) = (\<lambda>j. cumulative_pnl (D ! j)) ` {..i}"
  proof -
    have "set (take (Suc i) ?cum) = (\<lambda>j. ?cum ! j) ` {..i}"
      using i len by (simp add: set_take_Suc)
    also have "\<dots> = (\<lambda>j. cumulative_pnl (D ! j)) ` {..i}"
      using i by (intro image_cong) (simp_all add: cumD)
    finally show ?thesis .
  qed
  from rm img show "running_max (D ! i) = Max ((\<lambda>j. cumulative_pnl (D ! j)) ` {..i})"
    by simp
  show dd: "drawdown (D ! i) = cumulative_pnl (D ! i) - running_max (D ! i)"
    using i by (simp add: D_def drawdown_columns_nth)
  have "?cum ! i \<in> set (take (Suc i) ?cum)"
    using i len by (simp add: set_take_Suc)
  then have "?cum ! i \<le> Max (set (take (Suc i) ?cum))"
    by simp
  with rm dd show "drawdown (D ! i) \<le> 0"
    using i by (simp add: cumD)
qed

lemma calculate_kpis_daily_data:
  "trades \<noteq> [] \<Longrightarrow>
     daily_data (calculate_kpis trades c) = drawdown_columns (groupby_Date_sum trades)"
  by (simp add: calculate_kpis_def Let_def)

lemma calculate_kpis_max_drawdown:
  "trades \<noteq> [] \<Longrightarrow>
     max_drawdown (calculate_kpis trades c)
       = series_min (map drawdown (drawdown_columns (groupby_Date_sum trades)))"
  by (simp add: calculate_kpis_def Let_def)



lemma scenario_daily:
  "daily_data (calculate_kpis scenario_trades 1) =
     [\<lparr>Date = 1, pnl = 10, entry_cost = 5, cumulative_pnl = 10, running_max = 10, drawdown = 0\<rparr>,
      \<lparr>Date = 3, pnl = - 5, entry_cost = 10, cumulative_pnl = 5, running_max = 10, drawdown = - 5\<rparr>,
      \<lparr>Date = 4, pnl = - 7, entry_cost = 5, cumulative_pnl = - 2, running_max = 10, drawdown = - 12\<rparr>,
      \<lparr>Date = 5, pnl = 2, entry_cost = 5, cumulative_pnl = 0, running_max = 10, drawdown = - 10\<rparr>,
      \<lparr>Date = 9, pnl = 8, entry_cost = 5, cumulative_pnl = 8, running_max = 10, drawdown = - 2\<rparr>]"
  by (simp add: calculate_kpis_def scenario_trades_def groupby_Date_sum_def drawdown_columns_def Let_def)

text \<open>
  C1. For a non-empty trade set, \<open>wins\<close> counts the trades with \<open>pnl > 0\<close> and
  \<open>losses\<close> the trades with \<open>pnl \<le> 0\<close>, so a trade with \<open>pnl\<close> exactly 0 is a loss
  and not a win; the two counts add up to \<open>total_trades\<close>, and \<open>win_rate\<close> is
  \<open>wins / total_trades\<close>.
\<close>

theorem C1_win_loss_boundary:
  assumes "trades \<noteq> []"
  shows "wins (calculate_kpis trades c) = length (filter (\<lambda>t. pnl t > 0) trades)
    \<and> losses (calculate_kpis trades c) = length (filter (\<lambda>t. pnl t \<le> 0) trades)
    \<and> total_trades (calculate_kpis trades c) = length trades
    \<and> wins (calculate_kpis trades c) + losses (calculate_kpis trades c)
        = total_trades (calculate_kpis trades c)
    \<and> win_rate (calculate_kpis trades c)
        = real (wins (calculate_kpis trades c)) / real (total_trades (calculate_kpis trades c))"
proof -
  have "length (filter (\<lambda>t. pnl t > 0) trades) + length (filter (\<lambda>t. pnl t \<le> 0) trades)
      = length trades"
    using sum_length_filter_compl [of "\<lambda>t. pnl t > 0" trades] by (simp add: not_less)
  with assms show ?thesis
    by (simp add: calculate_kpis_def Let_def)
qed

theorem C1_win_loss_boundary_witness:
  "[\<lparr>Date = 1, pnl = 0, entry_cost = 5\<rparr>, \<lparr>Date = 2, pnl = 5, entry_cost = 5\<rparr>] \<noteq> []
   \<and> wins (calculate_kpis [\<lparr>Date = 1, pnl = 0, entry_cost = 5\<rparr>, \<lparr>Date = 2, pnl = 5, entry_cost = 5\<rparr>] 1) = 1
   \<and> losses (calculate_kpis [\<lparr>Date = 1, pnl = 0, entry_cost = 5\<rparr>, \<lparr>Date = 2, pnl = 5, entry_cost = 5\<rparr>] 1) = 1
   \<and> total_trades (calculate_kpis [\<lparr>Date = 1, pnl = 0, entry_cost = 5\<rparr>, \<lparr>Date = 2, pnl = 5, entry_cost = 5\<rparr>] 1) = 2
   \<and> win_rate (calculate_kpis [\<lparr>Date = 1, pnl = 0, entry_cost = 5\<rparr>, \<lparr>Date = 2, pnl = 5, entry_cost = 5\<rparr>] 1) = 1 / 2"
  using C1_win_loss_boundary [of "[\<lparr>Date = 1, pnl = 0, entry_cost = 5\<rparr>, \<lparr>Date = 2, pnl = 5, entry_cost = 5\<rparr>]" 1]
  by simp

text \<open>
  C3. On the empty trade set \<open>calculate_kpis\<close> returns the record of zeros, with no
  start and end date and an empty daily table. The function has no failing branch, so
  returning this value is all it does.
\<close>

theorem C3_empty_trades:
  "calculate_kpis [] c =
     \<lparr>win_rate = 0, total_trades = 0, wins = 0, losses = 0, gross_pnl = 0,
      commissions = 0, net_pnl = 0, max_drawdown = 0, max_drawdown_pct = 0,
      recovery_days = 0, date_start = None, date_end = None, daily_data = []\<rparr>"
  by (simp add: calculate_kpis_def)

text \<open>
  C6. For a non-empty trade set the daily table is non-empty; at every row the
  cumulative P&L is the sum of the daily P&L so far, the running maximum is the greatest
  cumulative P&L so far, the drawdown is their difference and is at most 0; and
  \<open>max_drawdown\<close> is the least drawdown of the table.
\<close>

theorem C6_drawdown:
  assumes "trades \<noteq> []"
  shows "daily_data (calculate_kpis trades c) \<noteq> []
    \<and> (\<forall>i<length (daily_data (calculate_kpis trades c)).
          cumulative_pnl (daily_data (calculate_kpis trades c) ! i)
            = (\<Sum>j\<le>i. pnl (daily_data (calculate_kpis trades c) ! j))
          \<and> running_max (daily_data (calculate_kpis trades c) ! i)
            = Max ((\<lambda>j. cumulative_pnl (daily_data (calculate_kpis trades c) ! j)) ` {..i})
          \<and> drawdown (daily_data (calculate_kpis trades c) ! i)
            = cumulative_pnl (daily_data (calculate_kpis trades c) ! i)
              - running_max (daily_data (calculate_kpis trades c) ! i)
          \<and> drawdown (daily_data (calculate_kpis trades c) ! i) \<le> 0)
    \<and> max_drawdown (calculate_kpis trades c)
        = Min (drawdown ` set (daily_data (calculate_kpis trades c)))"
proof -
  let ?T = "groupby_Date_sum trades"
  let ?D = "drawdown_columns ?T"
  have D: "daily_data (calculate_kpis trades c) = ?D"
    using assms by (rule calculate_kpis_daily_data)
  have ne: "?D \<noteq> []"
    using groupby_Date_sum_nonempty [OF assms] length_drawdown_columns [of ?T] by auto
  have "max_drawdown (calculate_kpis trades c) = Min (set (map drawdown ?D))"
    using assms ne by (simp add: calculate_kpis_max_drawdown series_min_Min)
  then have m: "max_drawdown (calculate_kpis trades c) = Min (drawdown ` set ?D)"
    by simp
  have "\<forall>i<length ?D.
          cumulative_pnl (?D ! i) = (\<Sum>j\<le>i. pnl (?D ! j))
          \<and> running_max (?D ! i) = Max ((\<lambda>j. cumulative_pnl (?D ! j)) ` {..i})
          \<and> drawdown (?D ! i) = cumulative_pnl (?D ! i) - running_max (?D ! i)
          \<and> drawdown (?D ! i) \<le> 0"
    using daily_columns [of _ ?T] by (simp add: length_drawdown_columns)
  with ne m show ?thesis
    unfolding D by blast
qed

theorem C6_drawdown_witness:
  "scenario_trades \<noteq> []
   \<and> map drawdown (daily_data (calculate_kpis scenario_trades 1)) = [0, - 5, - 12, - 10, - 2]
   \<and> max_drawdown (calculate_kpis scenario_trades 1) = - 12"
  using C6_drawdown [of scenario_trades 1]
  by (simp add: scenario_daily) (simp add: scenario_trades_def)



section \<open>Properties of the daily aggregation\<close>

text \<open>
  On a non-empty table the function returns the chosen rows, which are already in key
  order; on the empty table the progress line divides by zero.
\<close>

lemma idxmin_less: "xs \<noteq> [] \<Longrightarrow> idxmin xs < length xs"
proof -
  assume ne: "xs \<noteq> []"
  then have "series_min xs \<in> set xs"
    using Min_in [of "set xs"] by (simp add: series_min_Min)
  then have "\<exists>x\<in>set xs. x = series_min xs"
    by simp
  from first_index_found [OF this] show ?thesis
    by (simp add: idxmin_def)
qed

lemma group_labels_nonempty:
  assumes "k \<in> set (map group_key rows)"
  shows "group_labels rows k \<noteq> []"
proof -
  from assms obtain i where "i < length rows" "group_key (rows ! i) = k"
    by (auto simp add: in_set_conv_nth)
  then have "i \<in> set (group_labels rows k)"
    by (simp add: group_labels_def)
  then show ?thesis
    by auto
qed

lemma group_idxmin_in_group:
  assumes "k \<in> set (map group_key rows)"
  shows "group_idxmin rows k < length rows \<and> group_key (rows ! group_idxmin rows k) = k"
proof -
  let ?ls = "group_labels rows k"
  have "?ls \<noteq> []"
    using assms by (rule group_labels_nonempty)
  then have "idxmin (map (\<lambda>i. strike_distance (rows ! i)) ?ls) < length ?ls"
    using idxmin_less [of "map (\<lambda>i. strike_distance (rows ! i)) ?ls"] by simp
  then have "group_idxmin rows k \<in> set ?ls"
    by (simp add: group_idxmin_def Let_def)
  then show ?thesis
    by (simp add: group_labels_def)
qed

lemma picked_keys:
  assumes "set ks \<subseteq> set (map group_key rows)"
  shows "map group_key (map (\<lambda>i. rows ! i) (map (group_idxmin rows) ks)) = ks"
  using assms by (induction ks) (simp_all add: group_idxmin_in_group)

lemma closest_rows_keys:
  "map group_key (closest_rows rows) = sort (remdups (map group_key rows))"
  unfolding closest_rows_def Let_def by (rule picked_keys) simp

lemma closest_rows_nonempty:
  assumes "rows \<noteq> []"
  shows "closest_rows rows \<noteq> []"
proof -
  have "set (sort (remdups (map group_key rows))) \<noteq> {}"
    using assms by simp
  then have "set (map group_key (closest_rows rows)) \<noteq> {}"
    unfolding closest_rows_keys .
  then show ?thesis
    by auto
qed

lemma aggregate_to_daily_empty:
  "aggregate_to_daily [] = Inl (ZeroDivisionError ''division by zero'')"
  by (simp add: aggregate_to_daily_def closest_rows_def)

lemma aggregate_to_daily_nonempty:
  assumes "rows \<noteq> []"
  shows "aggregate_to_daily rows = Inr (closest_rows rows)"
proof -
  have "sorted (map group_key (closest_rows rows))"
    by (simp add: closest_rows_keys)
  then have s: "sort_key group_key (closest_rows rows) = closest_rows rows"
    by (rule sort_key_id_if_sorted)
  have "set (remdups (map Ticker (closest_rows rows))) \<noteq> {}"
    using closest_rows_nonempty [OF assms] by simp
  then have "remdups (map Ticker (closest_rows rows)) \<noteq> []"
    by (metis set_empty)
  then show ?thesis
    by (simp add: aggregate_to_daily_def Let_def s)
qed

lemma distinct_set_singleton:
  assumes "set xs = {a}" and "distinct xs"
  shows "xs = [a]"
proof (cases xs)
  case Nil
  with assms show ?thesis by simp
next
  case (Cons x ys)
  with assms have "x = a" and "set ys \<subseteq> {a}" and "a \<notin> set ys"
    by auto
  then have "ys = []"
    by (cases ys) auto
  with Cons \<open>x = a\<close> show ?thesis by simp
qed

lemma group_labels_single:
  assumes d: "distinct (map group_key R)" and i: "i < length R"
  shows "group_labels R (group_key (R ! i)) = [i]"
proof -
  let ?ls = "group_labels R (group_key (R ! i))"
  have "j = i" if "j < length R" "group_key (R ! j) = group_key (R ! i)" for j
    using nth_eq_iff_index_eq [OF d, of j i] that i by simp
  then have "set ?ls = {i}"
    using i by (auto simp add: group_labels_def)
  moreover have "distinct ?ls"
    by (simp add: group_labels_def)
  ultimately show ?thesis
    by (rule distinct_set_singleton)
qed

lemma closest_rows_fixed_point:
  assumes s: "sorted (map group_key R)" and d: "distinct (map group_key R)"
  shows "closest_rows R = R"
proof -
  have ks: "sort (remdups (map group_key R)) = map group_key R"
    using s d by (simp add: distinct_remdups_id sorted_sort_id)
  have pick: "group_idxmin R (group_key (R ! i)) = i" if "i < length R" for i
    using that d by (simp add: group_idxmin_def group_labels_single idxmin_def series_min_def)
  have "map (\<lambda>i. R ! i) (map (group_idxmin R) (map group_key R)) = R"
    by (rule nth_equalityI) (simp_all add: pick)
  then show ?thesis
    by (simp add: closest_rows_def Let_def ks)
qed

text \<open>
  The row kept for a \<open>(Ticker, Date)\<close> pair is a row of the pair whose strike price is
  closest to the expected value, and the first of the rows that are equally close.
\<close>

lemma idxmin_first_min:
  assumes "xs \<noteq> []"
  shows "idxmin xs < length xs \<and> xs ! idxmin xs = Min (set xs)
    \<and> (\<forall>i<idxmin xs. xs ! i \<noteq> Min (set xs))"
proof -
  have m: "series_min xs = Min (set xs)"
    using assms by (rule series_min_Min)
  then have "series_min xs \<in> set xs"
    using assms Min_in [of "set xs"] by simp
  then have "\<exists>x\<in>set xs. x = series_min xs"
    by simp
  from first_index_found [OF this] show ?thesis
    unfolding idxmin_def m by blast
qed

lemma group_idxmin_closest:
  assumes k: "k \<in> set (map group_key rows)"
    and j: "j < length rows" "group_key (rows ! j) = k"
  shows "strike_distance (rows ! group_idxmin rows k) \<le> strike_distance (rows ! j)
    \<and> (strike_distance (rows ! j) = strike_distance (rows ! group_idxmin rows k)
          \<longrightarrow> group_idxmin rows k \<le> j)"
proof -
  let ?ls = "group_labels rows k"
  let ?vs = "map (\<lambda>i. strike_distance (rows ! i)) ?ls"
  let ?m = "idxmin ?vs"
  have ne: "?vs \<noteq> []"
    using group_labels_nonempty [OF k] by simp
  from idxmin_first_min [OF ne]
  have mv: "?m < length ?vs" and vm: "?vs ! ?m = Min (set ?vs)"
    and first: "\<forall>i<?m. ?vs ! i \<noteq> Min (set ?vs)"
    by blast+
  from mv have m: "?m < length ?ls"
    by simp
  have pick: "group_idxmin rows k = ?ls ! ?m"
    by (simp add: group_idxmin_def Let_def)
  have sorted_ls: "sorted ?ls"
    unfolding group_labels_def by (intro sorted_wrt_filter) simp
  from j have "j \<in> set ?ls"
    by (simp add: group_labels_def)
  then obtain n where n: "n < length ?ls" "?ls ! n = j"
    by (auto simp add: in_set_conv_nth)
  then have vn: "?vs ! n = strike_distance (rows ! j)"
    by simp
  have "?vs ! n \<in> set ?vs"
    using n by (intro nth_mem) simp
  then have "Min (set ?vs) \<le> ?vs ! n"
    by simp
  with vm m have le: "strike_distance (rows ! (?ls ! ?m)) \<le> strike_distance (rows ! j)"
    by (simp add: vn)
  have "?ls ! ?m \<le> j" if "strike_distance (rows ! j) = strike_distance (rows ! (?ls ! ?m))"
  proof -
    from that vm m have "?vs ! n = Min (set ?vs)"
      by (simp add: vn)
    with first have "\<not> n < ?m"
      by blast
    then have "?m \<le> n"
      by simp
    with sorted_ls n show ?thesis
      by (auto simp add: sorted_iff_nth_mono)
  qed
  with le show ?thesis
    unfolding pick by blast
qed

lemma closest_rows_closest:
  assumes n: "n < length (closest_rows rows)"
  shows "\<exists>i<length rows. closest_rows rows ! n = rows ! i
    \<and> (\<forall>j<length rows. group_key (rows ! j) = group_key (rows ! i) \<longrightarrow>
          strike_distance (rows ! i) \<le> strike_distance (rows ! j)
        \<and> (strike_distance (rows ! j) = strike_distance (rows ! i) \<longrightarrow> i \<le> j))"
proof -
  let ?ks = "sort (remdups (map group_key rows))"
  let ?k = "?ks ! n"
  let ?i = "group_idxmin rows ?k"
  have "length (closest_rows rows) = length ?ks"
    by (simp add: closest_rows_def Let_def)
  with n have nk: "n < length ?ks"
    by simp
  then have "?k \<in> set ?ks"
    by (rule nth_mem)
  then have k: "?k \<in> set (map group_key rows)"
    by simp
  have row: "closest_rows rows ! n = rows ! ?i"
    using nk by (simp add: closest_rows_def Let_def)
  from group_idxmin_in_group [OF k] have i: "?i < length rows" and ki: "group_key (rows ! ?i) = ?k"
    by simp_all
  have "strike_distance (rows ! ?i) \<le> strike_distance (rows ! j)
        \<and> (strike_distance (rows ! j) = strike_distance (rows ! ?i) \<longrightarrow> ?i \<le> j)"
    if "j < length rows" "group_key (rows ! j) = group_key (rows ! ?i)" for j
    using group_idxmin_closest [OF k that(1)] that(2) ki by simp
  with i row show ?thesis
    by blast
qed

text \<open>The sample table and its daily table.\<close>

lemma aggregate_to_daily_sample: "aggregate_to_daily sample_raw = Inr sample_daily"
  by code_simp

lemma sample_daily_keys:
  "distinct (map group_key sample_daily) \<and> sorted (map group_key sample_daily)"
  by code_simp

text \<open>
  C8, as the code has it. On a non-empty raw table \<open>aggregate_to_daily\<close> returns a
  table and, applied to that table, returns it again. The table has exactly one row
  per \<open>(Ticker, Date)\<close> pair of the raw table, in ascending order of the pair, and
  each of its rows is the row of its pair whose strike price is closest to the expected
  value, the first such row of the raw table. Every non-empty table with one row per
  pair in ascending order of the pair is a fixed point.
\<close>

theorem C8_aggregate_idempotent:
  "(raw_data \<noteq> [] \<longrightarrow>
      (\<exists>daily. aggregate_to_daily raw_data = Inr daily
         \<and> aggregate_to_daily daily = Inr daily
         \<and> daily \<noteq> []
         \<and> distinct (map group_key daily)
         \<and> sorted (map group_key daily)
         \<and> set (map group_key daily) = set (map group_key raw_data)
         \<and> (\<forall>n<length daily. \<exists>i<length raw_data. daily ! n = raw_data ! i
               \<and> (\<forall>j<length raw_data. group_key (raw_data ! j) = group_key (raw_data ! i) \<longrightarrow>
                     strike_distance (raw_data ! i) \<le> strike_distance (raw_data ! j)
                   \<and> (strike_distance (raw_data ! j) = strike_distance (raw_data ! i)
                         \<longrightarrow> i \<le> j)))))
   \<and> (R \<noteq> [] \<and> distinct (map group_key R) \<and> sorted (map group_key R)
        \<longrightarrow> aggregate_to_daily R = Inr R)"
proof (intro conjI impI)
  assume ne: "raw_data \<noteq> []"
  let ?daily = "closest_rows raw_data"
  have dne: "?daily \<noteq> []"
    using ne by (rule closest_rows_nonempty)
  have d: "distinct (map group_key ?daily)" and s: "sorted (map group_key ?daily)"
    and k: "set (map group_key ?daily) = set (map group_key raw_data)"
    by (simp_all add: closest_rows_keys)
  have once: "aggregate_to_daily raw_data = Inr ?daily"
    using ne by (rule aggregate_to_daily_nonempty)
  have twice: "aggregate_to_daily ?daily = Inr ?daily"
    using aggregate_to_daily_nonempty [OF dne] closest_rows_fixed_point [OF s d] by simp
  from once twice dne d s k closest_rows_closest [of _ raw_data]
  show "\<exists>daily. aggregate_to_daily raw_data = Inr daily
         \<and> aggregate_to_daily daily = Inr daily
         \<and> daily \<noteq> []
         \<and> distinct (map group_key daily)
         \<and> sorted (map group_key daily)
         \<and> set (map group_key daily) = set (map group_key raw_data)
         \<and> (\<forall>n<length daily. \<exists>i<length raw_data. daily ! n = raw_data ! i
               \<and> (\<forall>j<length raw_data. group_key (raw_data ! j) = group_key (raw_data ! i) \<longrightarrow>
                     strike_distance (raw_data ! i) \<le> strike_distance (raw_data ! j)
                   \<and> (strike_distance (raw_data ! j) = strike_distance (raw_data ! i)
                         \<longrightarrow> i \<le> j)))"
    by (intro exI [of _ ?daily]) blast
next
  assume "R \<noteq> [] \<and> distinct (map group_key R) \<and> sorted (map group_key R)"
  then show "aggregate_to_daily R = Inr R"
    using aggregate_to_daily_nonempty [of R] closest_rows_fixed_point [of R] by simp
qed

theorem C8_aggregate_idempotent_witness:
  "sample_raw \<noteq> [] \<and> aggregate_to_daily sample_raw = Inr sample_daily
   \<and> sample_daily \<noteq> [] \<and> distinct (map group_key sample_daily)
   \<and> sorted (map group_key sample_daily)
   \<and> aggregate_to_daily sample_daily = Inr sample_daily"
proof -
  have a: "sample_raw \<noteq> []"
    by (simp add: sample_raw_def)
  have b: "sample_daily \<noteq> []"
    by (simp add: sample_daily_def)
  from C8_aggregate_idempotent [of sample_raw sample_daily] b sample_daily_keys
  have "aggregate_to_daily sample_daily = Inr sample_daily"
    by blast
  with a b sample_daily_keys aggregate_to_daily_sample show ?thesis
    by blast
qed

text \<open>
  The claim as written fails on a table with one row per pair that is not in key order:
  the final \<open>sort_values\<close> reorders it, so it is not a fixed point.
\<close>

theorem C8_aggregate_idempotent_counterexample:
  "unsorted_daily \<noteq> [] \<and> distinct (map group_key unsorted_daily)
   \<and> aggregate_to_daily unsorted_daily = Inr (rev unsorted_daily)
   \<and> aggregate_to_daily unsorted_daily \<noteq> Inr unsorted_daily"
  by code_simp

section \<open>Properties of the indicator and of the backtesting engine\<close>

lemma fl_sub_Fin: "fl_sub (Fin b) (Fin a) = Fin (b - a)"
  by (simp add: fl_sub_def)

lemma length_diff: "length (diff prices) = length prices"
  by (cases prices) (simp_all add: diff_def)

lemma diff_elems: "x \<in> set (diff prices) \<Longrightarrow> x = NaN \<or> (\<exists>d. x = Fin d)"
  by (cases prices) (auto simp add: diff_def fl_sub_Fin)

lemma length_rolling_mean: "length (rolling_mean w xs) = length xs"
  by (simp add: rolling_mean_def)

lemma rolling_mean_nth:
  "t < length xs \<Longrightarrow>
     rolling_mean w xs ! t =
       (if 0 < w \<and> w \<le> t + 1 \<and> NaN \<notin> set (take w (drop (t + 1 - w) xs))
        then fl_div (foldl fl_add (Fin 0) (take w (drop (t + 1 - w) xs))) (Fin (real w))
        else NaN)"
  by (simp add: rolling_mean_def Let_def)

lemma rolling_mean_short:
  assumes "length xs < w"
  shows "rolling_mean w xs = replicate (length xs) NaN"
proof (rule nth_equalityI)
  show "length (rolling_mean w xs) = length (replicate (length xs) NaN)"
    by (simp add: length_rolling_mean)
next
  fix t assume "t < length (rolling_mean w xs)"
  then have t: "t < length xs"
    by (simp add: length_rolling_mean)
  with assms have "\<not> w \<le> t + 1"
    by simp
  with t show "rolling_mean w xs ! t = replicate (length xs) NaN ! t"
    by (simp add: rolling_mean_nth)
qed

lemma calculate_rsi_short:
  assumes "length prices < period"
  shows "calculate_rsi prices period = replicate (length prices) NaN"
proof -
  have g: "rsi_gain prices period = replicate (length prices) NaN"
    using assms by (simp add: rsi_gain_def rolling_mean_short length_diff)
  have l: "rsi_loss prices period = replicate (length prices) NaN"
    using assms by (simp add: rsi_loss_def rolling_mean_short length_diff)
  have "zip (replicate n NaN) (replicate n NaN) = replicate n (NaN, NaN)" for n
    by (induction n) simp_all
  then show ?thesis
    by (simp add: calculate_rsi_def g l fl_div_def fl_sub_def)
qed

lemma length_calculate_rsi: "length (calculate_rsi prices period) = length prices"
  by (simp add: calculate_rsi_def rsi_gain_def rsi_loss_def length_rolling_mean length_diff)

lemma length_generate_rsi_signals:
  "length (generate_rsi_signals data period oversold overbought) = length data"
  by (simp add: generate_rsi_signals_def length_calculate_rsi)

lemma generate_rsi_signals_Ticker:
  "map Ticker (generate_rsi_signals data period oversold overbought) = map Ticker data"
  by (rule nth_equalityI)
    (simp_all add: generate_rsi_signals_def length_calculate_rsi Let_def)

lemma generate_rsi_signals_short:
  assumes "length data < period"
    and "r \<in> set (generate_rsi_signals data period oversold overbought)"
  shows "rsi r = NaN \<and> signal r = 0"
proof -
  have "calculate_rsi (map Exp_Value data) period = replicate (length data) NaN"
    using assms(1) calculate_rsi_short [of "map Exp_Value data" period] by simp
  with assms(2) show ?thesis
    by (auto simp add: generate_rsi_signals_def Let_def fl_gt_def dest!: set_zip_rightD)
qed

lemma price_trade_keeps:
  "Ticker (price_trade volatility row) = Ticker row"
  "signal (price_trade volatility row) = signal row"
  "rsi (price_trade volatility row) = rsi row"
  by (simp_all add: price_trade_def Let_def split: prod.splits)

lemma backtest_ticker_Ticker:
  "r \<in> set (backtest_ticker data rsi_period oversold overbought volatility ticker) \<Longrightarrow>
     Ticker r = ticker"
proof -
  assume "r \<in> set (backtest_ticker data rsi_period oversold overbought volatility ticker)"
  then obtain s where s: "s \<in> set (generate_rsi_signals (filter (\<lambda>r. Ticker r = ticker) data)
        rsi_period oversold overbought)" and r: "r = price_trade volatility s"
    by (auto simp add: backtest_ticker_def Let_def)
  from s have "Ticker s \<in> set (map Ticker (generate_rsi_signals (filter (\<lambda>r. Ticker r = ticker) data)
        rsi_period oversold overbought))"
    by simp
  then have "Ticker s \<in> set (map Ticker (filter (\<lambda>r. Ticker r = ticker) data))"
    by (simp only: generate_rsi_signals_Ticker)
  then have "Ticker s = ticker"
    by auto
  with r show ?thesis
    by (simp add: price_trade_keeps)
qed

lemma length_backtest_ticker:
  "length (backtest_ticker data rsi_period oversold overbought volatility ticker)
     = length (filter (\<lambda>r. Ticker r = ticker) data)"
  by (simp add: backtest_ticker_def Let_def length_generate_rsi_signals)

lemma backtest_ticker_short:
  assumes "length (filter (\<lambda>r. Ticker r = ticker) data) < rsi_period"
    and "r \<in> set (backtest_ticker data rsi_period oversold overbought volatility ticker)"
  shows "rsi r = NaN \<and> signal r = 0 \<and> bt_pnl r = NaN"
proof -
  from assms(2) obtain s where s: "s \<in> set (generate_rsi_signals (filter (\<lambda>r. Ticker r = ticker) data)
        rsi_period oversold overbought)" and r: "r = price_trade volatility s"
    by (auto simp add: backtest_ticker_def Let_def)
  from generate_rsi_signals_short [OF assms(1) s] r show ?thesis
    by (simp add: price_trade_def)
qed

lemma set_unique: "set (unique xs) = set xs"
  by (simp add: unique_def)

lemma backtest_strategy_rows:
  assumes "data \<noteq> []"
  shows "\<exists>res. backtest_strategy data rsi_period oversold overbought volatility = Inr res
    \<and> set res = (\<Union>tk\<in>set (map Ticker data).
          set (backtest_ticker data rsi_period oversold overbought volatility tk))"
proof -
  have "unique (map Ticker data) \<noteq> []"
    using assms by (metis set_unique set_empty map_is_Nil_conv)
  then show ?thesis
    by (simp add: backtest_strategy_def Let_def set_unique)
qed

lemma short_data_backtest:
  "backtest_strategy short_data 14 30 70 0.01 =
     Inr [\<lparr>Date = 1, Ticker = ''A'', Exp_Value = 100, Strike_Price = 100, In_the_Money = 1,
           rsi = NaN, signal = 0, bt_entry_cost = NaN, bt_probability_itm = NaN, bt_pnl = NaN\<rparr>,
          \<lparr>Date = 2, Ticker = ''A'', Exp_Value = 90, Strike_Price = 100, In_the_Money = 0,
           rsi = NaN, signal = 0, bt_entry_cost = NaN, bt_probability_itm = NaN, bt_pnl = NaN\<rparr>]"
  by (simp add: short_data_def backtest_strategy_def backtest_ticker_def unique_def
      generate_rsi_signals_def calculate_rsi_def rsi_gain_def rsi_loss_def rolling_mean_def
      diff_def price_trade_def fl_div_def fl_sub_def fl_gt_def Let_def)

text \<open>
  C5. Let a ticker of the data have fewer rows than the RSI period. Then the RSI of its
  price series is NaN at every date, every signal of the ticker is 0, and
  \<open>backtest_strategy\<close> returns a table (it raises nothing) in which every row of the
  ticker has an undefined RSI and no signal, so that the ticker has no trade row.
\<close>

theorem C5_short_series:
  assumes "tk \<in> set (map Ticker data)"
    and "length (filter (\<lambda>r. Ticker r = tk) data) < rsi_period"
  shows "calculate_rsi (map Exp_Value (filter (\<lambda>r. Ticker r = tk) data)) rsi_period
        = replicate (length (filter (\<lambda>r. Ticker r = tk) data)) NaN
    \<and> (\<forall>r\<in>set (generate_rsi_signals (filter (\<lambda>r. Ticker r = tk) data)
                  rsi_period oversold overbought). signal r = 0)
    \<and> (\<exists>res. backtest_strategy data rsi_period oversold overbought volatility = Inr res
          \<and> (\<forall>r\<in>set res. Ticker r = tk \<longrightarrow> rsi r = NaN \<and> signal r = 0)
          \<and> filter (\<lambda>r. Ticker r = tk \<and> signal r \<noteq> 0) res = [])"
proof (intro conjI)
  let ?rows = "filter (\<lambda>r. Ticker r = tk) data"
  show "calculate_rsi (map Exp_Value ?rows) rsi_period = replicate (length ?rows) NaN"
    using assms(2) calculate_rsi_short [of "map Exp_Value ?rows" rsi_period] by simp
  show "\<forall>r\<in>set (generate_rsi_signals ?rows rsi_period oversold overbought). signal r = 0"
    using generate_rsi_signals_short [OF assms(2)] by blast
  from assms(1) have "data \<noteq> []"
    by auto
  from backtest_strategy_rows [OF this, of rsi_period oversold overbought volatility]
  obtain res where res: "backtest_strategy data rsi_period oversold overbought volatility = Inr res"
    and rows: "set res = (\<Union>t\<in>set (map Ticker data).
          set (backtest_ticker data rsi_period oversold overbought volatility t))"
    by blast
  have short: "rsi r = NaN \<and> signal r = 0" if "r \<in> set res" "Ticker r = tk" for r
  proof -
    from that(1) rows obtain t
      where r: "r \<in> set (backtest_ticker data rsi_period oversold overbought volatility t)"
      by auto
    with that(2) have "t = tk"
      using backtest_ticker_Ticker [OF r] by simp
    with r backtest_ticker_short [OF assms(2)] show ?thesis
      by blast
  qed
  then have "filter (\<lambda>r. Ticker r = tk \<and> signal r \<noteq> 0) res = []"
    by (simp add: filter_empty_conv)
  with res short
  show "\<exists>res. backtest_strategy data rsi_period oversold overbought volatility = Inr res
          \<and> (\<forall>r\<in>set res. Ticker r = tk \<longrightarrow> rsi r = NaN \<and> signal r = 0)
          \<and> filter (\<lambda>r. Ticker r = tk \<and> signal r \<noteq> 0) res = []"
    by blast
qed

theorem C5_short_series_witness:
  "''A'' \<in> set (map Ticker short_data)
   \<and> length (filter (\<lambda>r. Ticker r = ''A'') short_data) < 14
   \<and> calculate_rsi (map Exp_Value (filter (\<lambda>r. Ticker r = ''A'') short_data)) 14 = [NaN, NaN]
   \<and> map signal (generate_rsi_signals (filter (\<lambda>r. Ticker r = ''A'') short_data) 14 30 70) = [0, 0]
   \<and> calculate_metrics (projr (backtest_strategy short_data 14 30 70 0.01))
       = [(''total_trades'', Count 0), (''win_rate'', Count 0), (''total_pnl'', Count 0)]"
proof -
  have a: "''A'' \<in> set (map Ticker short_data)"
    by (simp add: short_data_def)
  have b: "length (filter (\<lambda>r. Ticker r = ''A'') short_data) < 14"
    by (simp add: short_data_def)
  have c: "filter (\<lambda>r. Ticker r = ''A'') short_data = short_data"
    by (simp add: short_data_def)
  from C5_short_series [OF a b, of 30 70 "0.01"]
  have rsi: "calculate_rsi (map Exp_Value short_data) 14 = replicate (length short_data) NaN"
    and sig: "\<forall>r\<in>set (generate_rsi_signals short_data 14 30 70). signal r = 0"
    unfolding c by blast+
  from rsi have "calculate_rsi (map Exp_Value short_data) 14 = [NaN, NaN]"
    by (simp add: short_data_def)
  moreover have "map signal (generate_rsi_signals short_data 14 30 70) = [0, 0]"
  proof -
    have "map signal (generate_rsi_signals short_data 14 30 70)
        = map (\<lambda>r. 0) (generate_rsi_signals short_data 14 30 70)"
      using sig by (intro map_cong) simp_all
    also have "\<dots> = replicate (length short_data) 0"
      by (simp add: map_replicate_const length_generate_rsi_signals)
    finally show ?thesis
      by (simp add: short_data_def)
  qed
  moreover have "calculate_metrics (projr (backtest_strategy short_data 14 30 70 0.01))
       = [(''total_trades'', Count 0), (''win_rate'', Count 0), (''total_pnl'', Count 0)]"
    unfolding short_data_backtest by (simp add: calculate_metrics_def)
  ultimately show ?thesis
    using a b by (simp add: c)
qed

lemma foldl_fl_add_Fin: "foldl fl_add (Fin a) (map Fin ys) = Fin (a + sum_list ys)"
  by (induction ys arbitrary: a) (simp_all add: add.assoc)

lemma fl_div_Fin_pos: "0 < w \<Longrightarrow> fl_div (Fin s) (Fin w) = Fin (s / w)"
  by (simp add: fl_div_def is_zero_def zero_of_def)

lemma fl_neg_nonpos:
  "m \<le> 0 \<Longrightarrow> fl_neg (Fin m) = NegZero \<or> (\<exists>l. fl_neg (Fin m) = Fin l \<and> 0 < l)"
  by (cases "m = 0") auto

lemma rolling_mean_Fin:
  assumes fin: "\<forall>x\<in>set xs. \<exists>g. x = Fin g"
    and t: "t < length xs"
  shows "rolling_mean w xs ! t =
     (if 0 < w \<and> w \<le> t + 1
      then Fin (sum_list (map val (take w (drop (t + 1 - w) xs))) / real w)
      else NaN)"
proof -
  let ?win = "take w (drop (t + 1 - w) xs)"
  have sub: "set ?win \<subseteq> set xs"
    by (meson set_take_subset set_drop_subset subset_trans)
  with fin have win: "\<forall>x\<in>set ?win. \<exists>g. x = Fin g"
    by blast
  then have nonan: "NaN \<notin> set ?win"
    by auto
  have "map (\<lambda>x. Fin (val x)) ?win = ?win"
    using win by (intro map_idI) auto
  then have "map Fin (map val ?win) = ?win"
    by (simp add: comp_def)
  then have "foldl fl_add (Fin 0) ?win = Fin (sum_list (map val ?win))"
    using foldl_fl_add_Fin [of 0 "map val ?win"] by simp
  with t nonan show ?thesis
    by (simp add: rolling_mean_nth fl_div_Fin_pos)
qed

lemma gain_entries:
  "x \<in> set (map (\<lambda>d. if fl_gt d (Fin 0) then d else Fin 0) (diff prices)) \<Longrightarrow>
     \<exists>g. x = Fin g \<and> 0 \<le> g"
  by (auto simp add: fl_gt_def dest!: diff_elems)

lemma loss_entries:
  "x \<in> set (map (\<lambda>d. if fl_lt d (Fin 0) then d else Fin 0) (diff prices)) \<Longrightarrow>
     \<exists>l. x = Fin l \<and> l \<le> 0"
  by (auto dest!: diff_elems)

lemma rsi_gain_nth:
  assumes "t < length prices"
  shows "(0 < period \<and> period \<le> t + 1 \<longrightarrow> (\<exists>g. rsi_gain prices period ! t = Fin g \<and> 0 \<le> g))
     \<and> (\<not> (0 < period \<and> period \<le> t + 1) \<longrightarrow> rsi_gain prices period ! t = NaN)"
proof -
  let ?xs = "map (\<lambda>d. if fl_gt d (Fin 0) then d else Fin 0) (diff prices)"
  let ?win = "take period (drop (t + 1 - period) ?xs)"
  have fin: "\<forall>x\<in>set ?xs. \<exists>g. x = Fin g"
    using gain_entries [of _ prices] by blast
  have t: "t < length ?xs"
    using assms by (simp add: length_diff)
  have "set ?win \<subseteq> set ?xs"
    by (meson set_take_subset set_drop_subset subset_trans)
  then have "\<forall>x\<in>set ?win. 0 \<le> val x"
    using gain_entries [of _ prices] by fastforce
  then have "0 \<le> sum_list (map val ?win)"
    by (intro sum_list_nonneg) auto
  then have "0 \<le> sum_list (map val ?win) / real period"
    by simp
  then show ?thesis
    unfolding rsi_gain_def rolling_mean_Fin [OF fin t] by simp
qed

lemma rsi_loss_nth:
  assumes "t < length prices"
  shows "(0 < period \<and> period \<le> t + 1 \<longrightarrow>
            rsi_loss prices period ! t = NegZero \<or> (\<exists>l. rsi_loss prices period ! t = Fin l \<and> 0 < l))
     \<and> (\<not> (0 < period \<and> period \<le> t + 1) \<longrightarrow> rsi_loss prices period ! t = NaN)"
proof -
  let ?xs = "map (\<lambda>d. if fl_lt d (Fin 0) then d else Fin 0) (diff prices)"
  let ?win = "take period (drop (t + 1 - period) ?xs)"
  have fin: "\<forall>x\<in>set ?xs. \<exists>g. x = Fin g"
    using loss_entries [of _ prices] by blast
  have t: "t < length ?xs"
    using assms by (simp add: length_diff)
  have "set ?win \<subseteq> set ?xs"
    by (meson set_take_subset set_drop_subset subset_trans)
  then have "\<forall>x\<in>set ?win. val x \<le> 0"
    using loss_entries [of _ prices] by fastforce
  then have "sum_list (map val ?win) \<le> 0"
    by (intro sum_list_nonpos) auto
  then have m: "sum_list (map val ?win) / real period \<le> 0"
    by (simp add: divide_nonpos_nonneg)
  have neg: "rsi_loss prices period ! t = fl_neg (rolling_mean period ?xs ! t)"
    using t by (simp add: rsi_loss_def length_rolling_mean)
  show ?thesis
  proof (cases "0 < period \<and> period \<le> t + 1")
    case True
    let ?m = "sum_list (map val ?win) / real period"
    from True have "rsi_loss prices period ! t = fl_neg (Fin ?m)"
      unfolding neg rolling_mean_Fin [OF fin t] by simp
    moreover have "fl_neg (Fin ?m) = NegZero \<or> (\<exists>l. fl_neg (Fin ?m) = Fin l \<and> 0 < l)"
      using m by (rule fl_neg_nonpos)
    ultimately show ?thesis
      using True by simp
  next
    case False
    then have "rsi_loss prices period ! t = NaN"
      unfolding neg rolling_mean_Fin [OF fin t] by simp
    with False show ?thesis
      by simp
  qed
qed

lemma calculate_rsi_nth:
  assumes "t < length prices"
  shows "calculate_rsi prices period ! t =
     fl_sub (Fin 100)
       (fl_div (Fin 100)
          (fl_add (Fin 1) (fl_div (rsi_gain prices period ! t) (rsi_loss prices period ! t))))"
  using assms
  by (simp add: calculate_rsi_def rsi_gain_def rsi_loss_def length_rolling_mean length_diff)

text \<open>
  C2, as the code has it. At a date where the rolling average loss is zero, the rolling
  average gain is a finite number \<open>\<ge> 0\<close>; the RSI is 100 when that gain is positive
  and NaN when the gain is zero as well (\<open>0.0 / -0.0\<close> is NaN, and NaN goes through
  the rest of the formula).
\<close>

theorem C2_zero_loss:
  assumes "t < length prices" and "is_zero (rsi_loss prices period ! t)"
  shows "(\<exists>g. rsi_gain prices period ! t = Fin g \<and> 0 \<le> g)
    \<and> calculate_rsi prices period ! t
        = (if is_zero (rsi_gain prices period ! t) then NaN else Fin 100)"
proof -
  have full: "0 < period \<and> period \<le> t + 1"
  proof (rule ccontr)
    assume "\<not> (0 < period \<and> period \<le> t + 1)"
    with rsi_loss_nth [OF assms(1), of period] have "rsi_loss prices period ! t = NaN"
      by blast
    with assms(2) show False
      by (simp add: is_zero_def)
  qed
  with rsi_loss_nth [OF assms(1), of period]
  have "rsi_loss prices period ! t = NegZero \<or> (\<exists>l. rsi_loss prices period ! t = Fin l \<and> 0 < l)"
    by blast
  with assms(2) have loss: "rsi_loss prices period ! t = NegZero"
    by (auto simp add: is_zero_def)
  from full rsi_gain_nth [OF assms(1), of period]
  obtain g where g: "rsi_gain prices period ! t = Fin g" "0 \<le> g"
    by blast
  have "calculate_rsi prices period ! t = (if g = 0 then NaN else Fin 100)"
    using g by (simp add: calculate_rsi_nth [OF assms(1)] loss fl_div_def fl_sub_def
        is_zero_def inf_of_def zero_of_def)
  with g show ?thesis
    by (simp add: is_zero_def)
qed

theorem C2_zero_loss_witness:
  "(2::nat) < length [1, 2, 3, 4, 3 :: real] \<and> is_zero (rsi_loss [1, 2, 3, 4, 3] 2 ! 2)
   \<and> rsi_gain [1, 2, 3, 4, 3] 2 ! 2 = Fin 1
   \<and> calculate_rsi [1, 2, 3, 4, 3] 2 ! 2 = Fin 100"
proof -
  have a: "(2::nat) < length [1, 2, 3, 4, 3 :: real]"
    by simp
  have b: "rsi_loss [1, 2, 3, 4, 3] 2 ! 2 = NegZero"
    by (simp add: rsi_loss_def rolling_mean_def diff_def fl_div_def fl_sub_def is_zero_def
        zero_of_def Let_def numeral_2_eq_2)
  have c: "rsi_gain [1, 2, 3, 4, 3] 2 ! 2 = Fin 1"
    by (simp add: rsi_gain_def rolling_mean_def diff_def fl_div_def fl_sub_def fl_gt_def
        is_zero_def zero_of_def Let_def numeral_2_eq_2)
  from b have z: "is_zero (rsi_loss [1, 2, 3, 4, 3] 2 ! 2)"
    by (simp add: is_zero_def)
  from C2_zero_loss [OF a z] c show ?thesis
    using a z by (simp add: is_zero_def)
qed

text \<open>
  The claim as written fails on a flat series: with prices 5, 5, 5 and period 2 the
  rolling average loss and gain at the last date are both zero and the RSI is NaN.
\<close>

theorem C2_zero_loss_counterexample:
  "(2::nat) < length [5, 5, 5 :: real] \<and> is_zero (rsi_loss [5, 5, 5] 2 ! 2)
   \<and> is_zero (rsi_gain [5, 5, 5] 2 ! 2) \<and> calculate_rsi [5, 5, 5] 2 ! 2 = NaN
   \<and> calculate_rsi [5, 5, 5] 2 ! 2 \<noteq> Fin 100"
  by (simp add: calculate_rsi_def rsi_gain_def rsi_loss_def rolling_mean_def diff_def
      fl_div_def fl_sub_def fl_gt_def is_zero_def zero_of_def inf_of_def Let_def numeral_2_eq_2)

section \<open>Properties of the probability-based pricing\<close>

text \<open>
  The series of \<open>norm_cdf\<close> converges for every argument, and the function is 1/2 at 0.
\<close>

lemma abs_cdf_term:
  "\<bar>cdf_term x n\<bar> = \<bar>x\<bar> ^ (2 * n + 1) / (fact n * 2 ^ n * real (2 * n + 1))"
  by (simp add: cdf_term_def abs_mult power_abs)

lemma frac_cross: "0 < b \<Longrightarrow> 0 < d \<Longrightarrow> a * d \<le> b \<Longrightarrow> a / b \<le> 1 / d" for a b d :: real
  by (simp add: field_simps)

lemma cdf_term_ratio:
  assumes "x\<^sup>2 \<le> real (n + 1)"
  shows "\<bar>cdf_term x (Suc n)\<bar> \<le> 1 / 2 * \<bar>cdf_term x n\<bar>"
proof -
  let ?c = "\<bar>x\<bar> ^ (2 * n + 1) / (fact n * 2 ^ n)"
  have c: "0 \<le> ?c"
    by simp
  have "x\<^sup>2 * real (2 * n + 1) \<le> real (n + 1) * real (2 * n + 1)"
    using assms by (intro mult_right_mono) simp_all
  also have "\<dots> \<le> real (n + 1) * real (2 * n + 3)"
    by (intro mult_left_mono) simp_all
  finally have key: "x\<^sup>2 * real (2 * n + 1) \<le> real (n + 1) * real (2 * n + 3)" .
  have "x\<^sup>2 / (real (n + 1) * real (2 * n + 3)) \<le> 1 / real (2 * n + 1)"
    using key by (intro frac_cross) simp_all
  then have le: "?c * (x\<^sup>2 / (real (n + 1) * real (2 * n + 3))) \<le> ?c * (1 / real (2 * n + 1))"
    using c by (rule mult_left_mono)
  have "\<bar>x\<bar> ^ (2 * Suc n + 1) = \<bar>x\<bar> ^ (2 * n + 1) * x\<^sup>2"
    by (simp add: power2_eq_square)
  then have "\<bar>cdf_term x (Suc n)\<bar> = 1 / 2 * (?c * (x\<^sup>2 / (real (n + 1) * real (2 * n + 3))))"
    unfolding abs_cdf_term by (simp add: field_simps)
  also have "\<dots> \<le> 1 / 2 * (?c * (1 / real (2 * n + 1)))"
    using le by (rule mult_left_mono) simp
  also have "?c * (1 / real (2 * n + 1)) = \<bar>cdf_term x n\<bar>"
    by (simp add: abs_cdf_term)
  finally show ?thesis .
qed

lemma summable_cdf_term: "summable (cdf_term x)"
proof (rule summable_ratio_test [where c = "1 / 2" and N = "nat \<lceil>x\<^sup>2\<rceil>"])
  show "(1 / 2 :: real) < 1"
    by simp
  show "norm (cdf_term x (Suc n)) \<le> 1 / 2 * norm (cdf_term x n)" if "nat \<lceil>x\<^sup>2\<rceil> \<le> n" for n
  proof -
    from that have "x\<^sup>2 \<le> real n"
      by linarith
    then have "x\<^sup>2 \<le> real (n + 1)"
      by simp
    from cdf_term_ratio [OF this] show ?thesis
      by simp
  qed
qed

lemma norm_cdf_0: "norm_cdf 0 = 1 / 2"
  by (simp add: norm_cdf_def cdf_term_def)

text \<open>
  A lower bound at 5: \<open>pi < 16/5\<close> because the cosine of 8/5 is negative, the first 34
  terms of the series sum to more than 1.24, and the rest is below 0.01 in absolute value.
\<close>

lemma cos_8_5_negative: "cos (8 / 5 :: real) < 0"
proof -
  obtain t :: real where
    c: "cos (8 / 5) = (\<Sum>m<8. cos_coeff m * (8 / 5) ^ m)
          + cos (t + 1 / 2 * real 8 * pi) / fact 8 * (8 / 5) ^ 8"
    using Maclaurin_cos_expansion [of "8 / 5" 8] by blast
  have "cos (t + 1 / 2 * real 8 * pi) / fact 8 * (8 / 5) ^ 8 \<le> 1 / fact 8 * (8 / 5 :: real) ^ 8"
    by (intro mult_right_mono divide_right_mono) simp_all
  moreover have "{..<8::nat} = {0, 1, 2, 3, 4, 5, 6, 7}"
    by auto
  then have "(\<Sum>m<8. cos_coeff m * (8 / 5 :: real) ^ m) + 1 / fact 8 * (8 / 5) ^ 8 < 0"
    by (simp add: cos_coeff_def fact_numeral power_divide)
  ultimately show ?thesis
    unfolding c by linarith
qed

lemma pi_less_16_5: "pi < 16 / 5"
proof (rule ccontr)
  assume "\<not> pi < 16 / 5"
  then have "(8 / 5 :: real) \<le> pi / 2"
    by simp
  moreover have "- (pi / 2) \<le> (8 / 5 :: real)"
    using pi_ge_zero by linarith
  ultimately have "0 \<le> cos (8 / 5 :: real)"
    by (intro cos_ge_zero)
  with cos_8_5_negative show False
    by simp
qed

lemma sqrt_2pi_bound: "0 < sqrt (2 * pi) \<and> sqrt (2 * pi) \<le> 253 / 100"
proof
  show "0 < sqrt (2 * pi)"
    by simp
  have "2 * pi \<le> (253 / 100)\<^sup>2"
    using pi_less_16_5 by (simp add: power2_eq_square)
  then show "sqrt (2 * pi) \<le> 253 / 100"
    by (intro real_le_lsqrt) simp_all
qed

lemma cdf_term_tail_geometric:
  "\<bar>cdf_term 5 (n + 34)\<bar> \<le> \<bar>cdf_term 5 34\<bar> * (1 / 2) ^ n"
proof (induction n)
  case 0
  show ?case by simp
next
  case (Suc n)
  have "\<bar>cdf_term 5 (Suc n + 34)\<bar> \<le> 1 / 2 * \<bar>cdf_term 5 (n + 34)\<bar>"
    using cdf_term_ratio [of 5 "n + 34"] by simp
  also have "\<dots> \<le> 1 / 2 * (\<bar>cdf_term 5 34\<bar> * (1 / 2) ^ n)"
    using Suc.IH by simp
  finally show ?case
    by simp
qed

lemma cdf_term_34: "\<bar>cdf_term 5 34\<bar> \<le> 5 / 1000"
  by (simp add: abs_cdf_term eval_nat_numeral fact_numeral)

lemma cdf_partial_sum: "124 / 100 \<le> (\<Sum>n<34. cdf_term 5 n)"
  by (simp add: cdf_term_def lessThan_Suc eval_nat_numeral fact_numeral)

lemma cdf_tail: "\<bar>\<Sum>n. cdf_term 5 (n + 34)\<bar> \<le> 1 / 100"
proof -
  let ?g = "\<lambda>n. \<bar>cdf_term 5 34\<bar> * (1 / 2) ^ n"
  have geo: "summable (\<lambda>n. (1 / 2 :: real) ^ n)"
    by (intro summable_geometric) simp
  then have sg: "summable ?g"
    by (rule summable_mult)
  have sa: "summable (\<lambda>n. \<bar>cdf_term 5 (n + 34)\<bar>)"
    by (rule summable_comparison_test' [OF sg, of 0]) (simp add: cdf_term_tail_geometric)
  then have "\<bar>\<Sum>n. cdf_term 5 (n + 34)\<bar> \<le> (\<Sum>n. \<bar>cdf_term 5 (n + 34)\<bar>)"
    by (rule summable_rabs)
  also have "\<dots> \<le> suminf ?g"
    using sa sg by (intro suminf_le) (simp_all add: cdf_term_tail_geometric)
  also have "\<dots> = \<bar>cdf_term 5 34\<bar> * (\<Sum>n. (1 / 2) ^ n)"
    using geo by (rule suminf_mult)
  also have "(\<Sum>n. (1 / 2 :: real) ^ n) = 2"
    by (simp add: suminf_geometric)
  finally show ?thesis
    using cdf_term_34 by simp
qed

lemma cdf_series_5: "123 / 100 \<le> (\<Sum>n. cdf_term 5 n)"
proof -
  have "(\<Sum>n. cdf_term 5 n) = (\<Sum>n. cdf_term 5 (n + 34)) + (\<Sum>n<34. cdf_term 5 n)"
    using summable_cdf_term [of 5] by (rule suminf_split_initial_segment)
  with cdf_tail cdf_partial_sum show ?thesis
    by linarith
qed

lemma norm_cdf_5: "95 / 100 \<le> norm_cdf 5"
proof -
  let ?s = "\<Sum>n. cdf_term 5 n"
  have "45 / 100 * sqrt (2 * pi) \<le> 45 / 100 * (253 / 100)"
    using sqrt_2pi_bound by (intro mult_left_mono) simp_all
  also have "\<dots> \<le> ?s"
    using cdf_series_5 by simp
  finally have "45 / 100 \<le> ?s / sqrt (2 * pi)"
    using sqrt_2pi_bound by (simp add: pos_le_divide_eq)
  then show ?thesis
    by (simp add: norm_cdf_def)
qed

text \<open>The pricer on a positive strike: every intermediate value is finite.\<close>

lemma py_min_Fin: "py_min (Fin a) (Fin b) = Fin (min a b)"
  by (simp add: py_min_def min_def)

lemma py_max_Fin: "py_max (Fin a) (Fin b) = Fin (max a b)"
  by (simp add: py_max_def fl_gt_def max_def)

lemma fl_mul_Fin_pos: "0 < b \<Longrightarrow> fl_mul (Fin a) (Fin b) = Fin (a * b)"
  by (auto simp add: fl_mul_def is_zero_def zero_of_def)

lemma calculate_probability_itm_spec:
  assumes "0 < strike_price"
  shows "calculate_probability_itm exp_value strike_price volatility
      = Fin (spec_probability exp_value strike_price volatility)"
proof -
  let ?v = "if volatility \<le> 0 then 0.01 else volatility"
  have v: "0 < ?v"
    by simp
  with assms have "0 < strike_price * ?v"
    by (intro mult_pos_pos)
  then have "fl_div (fl_sub (Fin exp_value) (Fin strike_price)) (fl_mul (Fin strike_price) (Fin ?v))
      = Fin ((exp_value - strike_price) / (strike_price * ?v))"
    using v by (simp only: fl_sub_Fin fl_mul_Fin_pos fl_div_Fin_pos)
  then show ?thesis
    by (simp only: calculate_probability_itm_def Let_def spec_probability_def
        norm_cdf_fl.simps py_min_Fin py_max_Fin)
qed

lemma spec_probability_bounds:
  "0.05 \<le> spec_probability E K sigma \<and> spec_probability E K sigma \<le> 0.95"
  by (simp add: spec_probability_def)

lemma spec_probability_scenario: "spec_probability 105 100 0.01 = 0.95"
proof -
  have "(105 - 100) / (100 * (if (0.01::real) \<le> 0 then 0.01 else 0.01)) = (5::real)"
    by simp
  then have "spec_probability 105 100 0.01 = max 0.05 (min 0.95 (norm_cdf 5))"
    unfolding spec_probability_def by (simp only:)
  with norm_cdf_5 show ?thesis
    by simp
qed

lemma calculate_fair_entry_cost_spec:
  assumes "0 < strike_price"
  shows "calculate_fair_entry_cost exp_value strike_price max_payout volatility
      = (Fin (max_payout * spec_probability exp_value strike_price volatility),
         Fin (spec_probability exp_value strike_price volatility))"
proof -
  have "0 < spec_probability exp_value strike_price volatility"
    using spec_probability_bounds [of exp_value strike_price volatility] by simp
  then show ?thesis
    using assms
    by (simp add: calculate_fair_entry_cost_def calculate_probability_itm_spec fl_mul_Fin_pos)
qed

text \<open>
  C4. For a strike \<open>K > 0\<close> the pricer returns the probability
  \<open>norm_cdf ((E - K) / (K * sigma))\<close> clamped to \<open>[0.05, 0.95]\<close>, with \<open>sigma\<close>
  replaced by 0.01 when \<open>sigma \<le> 0\<close>, and the entry cost \<open>max_payout\<close> times that
  probability; for a payout \<open>max_payout \<ge> 0\<close> the entry cost lies between
  \<open>0.05 * max_payout\<close> and \<open>0.95 * max_payout\<close>; and \<open>E = 105\<close>, \<open>K = 100\<close>,
  \<open>sigma = 0.01\<close>, \<open>max_payout = 10\<close> give the probability 0.95 and the cost 9.50.
\<close>

theorem C4_fair_entry_cost:
  assumes "0 < strike_price"
  shows "calculate_fair_entry_cost exp_value strike_price max_payout volatility
        = (Fin (max_payout * spec_probability exp_value strike_price volatility),
           Fin (spec_probability exp_value strike_price volatility))
    \<and> 0.05 \<le> spec_probability exp_value strike_price volatility
    \<and> spec_probability exp_value strike_price volatility \<le> 0.95
    \<and> (0 \<le> max_payout \<longrightarrow>
          0.05 * max_payout \<le> max_payout * spec_probability exp_value strike_price volatility
        \<and> max_payout * spec_probability exp_value strike_price volatility \<le> 0.95 * max_payout)
    \<and> calculate_fair_entry_cost 105 100 10.0 0.01 = (Fin 9.50, Fin 0.95)"
proof -
  let ?p = "spec_probability exp_value strike_price volatility"
  have b: "0.05 \<le> ?p" "?p \<le> 0.95"
    using spec_probability_bounds [of exp_value strike_price volatility] by simp_all
  have cost: "calculate_fair_entry_cost exp_value strike_price max_payout volatility
      = (Fin (max_payout * ?p), Fin ?p)"
    using assms by (rule calculate_fair_entry_cost_spec)
  have bounds: "0.05 * max_payout \<le> max_payout * ?p \<and> max_payout * ?p \<le> 0.95 * max_payout"
    if "0 \<le> max_payout"
    using that b mult_left_mono [of "0.05" ?p max_payout] mult_left_mono [of ?p "0.95" max_payout]
    by (simp add: mult.commute)
  have "calculate_fair_entry_cost 105 100 10.0 0.01
      = (Fin (10.0 * spec_probability 105 100 0.01), Fin (spec_probability 105 100 0.01))"
    by (rule calculate_fair_entry_cost_spec) simp
  then have "calculate_fair_entry_cost 105 100 10.0 0.01 = (Fin (10.0 * 0.95), Fin 0.95)"
    by (simp only: spec_probability_scenario)
  then have "calculate_fair_entry_cost 105 100 10.0 0.01 = (Fin 9.50, Fin 0.95)"
    by simp
  with cost b bounds show ?thesis
    by blast
qed

theorem C4_fair_entry_cost_witness:
  "(0::real) < 100 \<and> (0::real) \<le> 10
   \<and> calculate_fair_entry_cost 105 100 10 0 = (Fin 9.5, Fin 0.95)
   \<and> 0.05 * 10 \<le> (9.5::real) \<and> (9.5::real) \<le> 0.95 * 10"
proof -
  have "spec_probability 105 100 0 = spec_probability 105 100 0.01"
    by (simp add: spec_probability_def)
  then have "spec_probability 105 100 0 = 0.95"
    by (simp only: spec_probability_scenario)
  with C4_fair_entry_cost [of 100 105 10 0] show ?thesis
    by simp
qed

section \<open>Properties of the performance metrics\<close>

lemma fl_not_gt_and_lt: "\<not> (fl_gt a b \<and> fl_lt a b)"
  by (cases a; cases b) (simp_all add: fl_gt_def)

lemma length_filter_disjoint:
  assumes "\<And>x. \<not> (P x \<and> Q x)"
  shows "length (filter P xs) + length (filter Q xs) = length (filter (\<lambda>x. P x \<or> Q x) xs)"
  using assms by (induction xs) auto

lemma calculate_metrics_trades:
  assumes "filter (\<lambda>r. signal r \<noteq> 0) backtest_results \<noteq> []"
  shows "map_of (calculate_metrics backtest_results) ''total_trades''
        = Some (Count (length (filter (\<lambda>r. signal r \<noteq> 0) backtest_results)))"
    and "map_of (calculate_metrics backtest_results) ''winning_trades''
        = Some (Count (length (filter (\<lambda>r. fl_gt (bt_pnl r) (Fin 0))
            (filter (\<lambda>r. signal r \<noteq> 0) backtest_results))))"
    and "map_of (calculate_metrics backtest_results) ''losing_trades''
        = Some (Count (length (filter (\<lambda>r. fl_lt (bt_pnl r) (Fin 0))
            (filter (\<lambda>r. signal r \<noteq> 0) backtest_results))))"
    and "map_of (calculate_metrics backtest_results) ''win_rate''
        = Some (Num (Fin (real (length (filter (\<lambda>r. fl_gt (bt_pnl r) (Fin 0))
              (filter (\<lambda>r. signal r \<noteq> 0) backtest_results)))
            / real (length (filter (\<lambda>r. signal r \<noteq> 0) backtest_results)))))"
  using assms by (simp_all add: calculate_metrics_def Let_def)

text \<open>
  C10. In \<open>calculate_metrics\<close> a trade (a row with a signal) whose \<open>pnl\<close> is exactly
  0 is neither among the wins (\<open>pnl > 0\<close>) nor among the losses (\<open>pnl < 0\<close>). When the
  trades contain such a row, \<open>winning_trades + losing_trades < total_trades\<close>, and
  \<open>win_rate\<close> is \<open>winning_trades / total_trades\<close>.
\<close>

theorem C10_metrics_zero_pnl:
  assumes "t \<in> set backtest_results" and "signal t \<noteq> 0" and "is_zero (bt_pnl t)"
  shows "t \<notin> set (filter (\<lambda>r. fl_gt (bt_pnl r) (Fin 0))
                  (filter (\<lambda>r. signal r \<noteq> 0) backtest_results))
    \<and> t \<notin> set (filter (\<lambda>r. fl_lt (bt_pnl r) (Fin 0))
                  (filter (\<lambda>r. signal r \<noteq> 0) backtest_results))
    \<and> (\<exists>total w l.
          map_of (calculate_metrics backtest_results) ''total_trades'' = Some (Count total)
        \<and> map_of (calculate_metrics backtest_results) ''winning_trades'' = Some (Count w)
        \<and> map_of (calculate_metrics backtest_results) ''losing_trades'' = Some (Count l)
        \<and> total = length (filter (\<lambda>r. signal r \<noteq> 0) backtest_results)
        \<and> w = length (filter (\<lambda>r. fl_gt (bt_pnl r) (Fin 0))
                  (filter (\<lambda>r. signal r \<noteq> 0) backtest_results))
        \<and> l = length (filter (\<lambda>r. fl_lt (bt_pnl r) (Fin 0))
                  (filter (\<lambda>r. signal r \<noteq> 0) backtest_results))
        \<and> w + l < total
        \<and> map_of (calculate_metrics backtest_results) ''win_rate''
            = Some (Num (Fin (real w / real total))))"
proof -
  let ?trades = "filter (\<lambda>r. signal r \<noteq> 0) backtest_results"
  let ?win = "\<lambda>r::result_row. fl_gt (bt_pnl r) (Fin 0)"
  let ?lose = "\<lambda>r::result_row. fl_lt (bt_pnl r) (Fin 0)"
  from assms(1,2) have t: "t \<in> set ?trades"
    by simp
  from length_pos_if_in_set [OF t] have ne: "?trades \<noteq> []"
    by fastforce
  from assms(3) have nw: "\<not> ?win t" and nl: "\<not> ?lose t"
    by (auto simp add: is_zero_def fl_gt_def)
  have "length (filter ?win ?trades) + length (filter ?lose ?trades)
      = length (filter (\<lambda>r. ?win r \<or> ?lose r) ?trades)"
    by (rule length_filter_disjoint) (rule fl_not_gt_and_lt)
  also have "\<dots> < length ?trades"
    using t nw nl by (intro length_filter_less [of t]) simp_all
  finally have less: "length (filter ?win ?trades) + length (filter ?lose ?trades) < length ?trades" .
  from nw nl have "t \<notin> set (filter ?win ?trades)" "t \<notin> set (filter ?lose ?trades)"
    by simp_all
  with less calculate_metrics_trades [OF ne] show ?thesis
    by blast
qed

theorem C10_metrics_zero_pnl_witness:
  "zero_pnl_rows ! 1 \<in> set zero_pnl_rows \<and> signal (zero_pnl_rows ! 1) \<noteq> 0
   \<and> is_zero (bt_pnl (zero_pnl_rows ! 1))
   \<and> map_of (calculate_metrics zero_pnl_rows) ''total_trades'' = Some (Count 3)
   \<and> map_of (calculate_metrics zero_pnl_rows) ''winning_trades'' = Some (Count 1)
   \<and> map_of (calculate_metrics zero_pnl_rows) ''losing_trades'' = Some (Count 1)
   \<and> map_of (calculate_metrics zero_pnl_rows) ''win_rate'' = Some (Num (Fin (1 / 3)))"
proof -
  have a: "zero_pnl_rows ! 1 \<in> set zero_pnl_rows"
    by (simp add: zero_pnl_rows_def)
  have b: "signal (zero_pnl_rows ! 1) \<noteq> 0"
    by (simp add: zero_pnl_rows_def)
  have c: "is_zero (bt_pnl (zero_pnl_rows ! 1))"
    by (simp add: zero_pnl_rows_def is_zero_def)
  have d: "length (filter (\<lambda>r. signal r \<noteq> 0) zero_pnl_rows) = 3"
    "length (filter (\<lambda>r. signal r \<noteq> 0 \<and> fl_gt (bt_pnl r) (Fin 0)) zero_pnl_rows) = 1"
    "length (filter (\<lambda>r. signal r \<noteq> 0 \<and> fl_lt (bt_pnl r) (Fin 0)) zero_pnl_rows) = 1"
    by (simp_all add: zero_pnl_rows_def fl_gt_def)
  from C10_metrics_zero_pnl [OF a b c] show ?thesis
    using a b c by (auto simp add: d)
qed

section \<open>Properties of the results container\<close>

lemma try_load_missing:
  "s3_client bucket key = None \<Longrightarrow> \<exists>msg. try_load s3_client bucket what key read = Inl (FileNotFoundError msg)"
  by (simp add: try_load_def get_object_def)

lemma try_load_error:
  "try_load s3_client bucket what key read = Inl e \<Longrightarrow> \<exists>msg. e = FileNotFoundError msg"
  by (auto simp add: try_load_def split: sum.splits)

text \<open>
  C9. If the trade log, the KPI summary or the daily-metrics table of the requested run
  is not in the store, \<open>load_from_s3\<close> raises \<open>FileNotFoundError\<close>; and whatever
  \<open>load_from_s3\<close> raises is a \<open>FileNotFoundError\<close>.
\<close>

theorem C9_missing_artifact:
  "(s3_client bucket (folder_path prefix date @ ''/trades.csv'') = None
      \<or> s3_client bucket (folder_path prefix date @ ''/kpi_summary.json'') = None
      \<or> s3_client bucket (folder_path prefix date @ ''/daily_metrics.csv'') = None
    \<longrightarrow> (\<exists>msg. load_from_s3 read_csv read_json no_params now s3_client bucket date prefix
                = Inl (FileNotFoundError msg)))
   \<and> (\<forall>e. load_from_s3 read_csv read_json no_params now s3_client bucket date prefix = Inl e
          \<longrightarrow> (\<exists>msg. e = FileNotFoundError msg))"
proof (intro conjI impI allI)
  fix e
  assume "load_from_s3 read_csv read_json no_params now s3_client bucket date prefix = Inl e"
  then show "\<exists>msg. e = FileNotFoundError msg"
    by (auto simp add: load_from_s3_def Let_def split: sum.splits dest: try_load_error)
next
  let ?t = "try_load s3_client bucket ''trades'' (folder_path prefix date @ ''/trades.csv'') read_csv"
  let ?k = "try_load s3_client bucket ''KPIs'' (folder_path prefix date @ ''/kpi_summary.json'') read_json"
  let ?d = "try_load s3_client bucket ''daily metrics'' (folder_path prefix date @ ''/daily_metrics.csv'') read_csv"
  assume missing: "s3_client bucket (folder_path prefix date @ ''/trades.csv'') = None
      \<or> s3_client bucket (folder_path prefix date @ ''/kpi_summary.json'') = None
      \<or> s3_client bucket (folder_path prefix date @ ''/daily_metrics.csv'') = None"
  have err: "\<exists>msg. load_from_s3 read_csv read_json no_params now s3_client bucket date prefix
      = Inl (FileNotFoundError msg)"
    if "(\<exists>m. ?t = Inl (FileNotFoundError m)) \<or> (\<exists>m. ?k = Inl (FileNotFoundError m))
      \<or> (\<exists>m. ?d = Inl (FileNotFoundError m))"
  proof (cases ?t)
    case (Inl e)
    with try_load_error [OF Inl] show ?thesis
      by (auto simp add: load_from_s3_def Let_def)
  next
    case t: (Inr tr)
    show ?thesis
    proof (cases ?k)
      case (Inl e)
      with try_load_error [OF Inl] t show ?thesis
        by (auto simp add: load_from_s3_def Let_def)
    next
      case k: (Inr kp)
      show ?thesis
      proof (cases ?d)
        case (Inl e)
        with try_load_error [OF Inl] t k show ?thesis
          by (auto simp add: load_from_s3_def Let_def)
      next
        case (Inr dl)
        with t k that show ?thesis
          by simp
      qed
    qed
  qed
  from missing show "\<exists>msg. load_from_s3 read_csv read_json no_params now s3_client bucket date prefix
      = Inl (FileNotFoundError msg)"
    using try_load_missing [of s3_client bucket _ _ read_csv]
      try_load_missing [of s3_client bucket _ _ read_json]
    by (intro err) blast
qed

theorem C9_missing_artifact_witness:
  "sample_store ''nadex'' (folder_path ''backtest/results'' None @ ''/kpi_summary.json'') = None
   \<and> load_from_s3 (\<lambda>body. Inr body) (\<lambda>body. Inr (Map.empty :: string \<rightharpoonup> string)) [] ''2026''
        sample_store ''nadex'' None ''backtest/results''
       = Inl (FileNotFoundError
           (''Could not load KPIs from backtest/results/latest/kpi_summary.json: ''
            @ ''An error occurred (NoSuchKey) when calling the GetObject operation: ''
            @ ''The specified key does not exist.''))"
proof -
  have a: "sample_store ''nadex'' (folder_path ''backtest/results'' None @ ''/kpi_summary.json'') = None"
    by (simp add: sample_store_def folder_path_def)
  have "load_from_s3 (\<lambda>body. Inr body) (\<lambda>body. Inr (Map.empty :: string \<rightharpoonup> string)) [] ''2026''
        sample_store ''nadex'' None ''backtest/results''
       = Inl (FileNotFoundError
           (''Could not load KPIs from backtest/results/latest/kpi_summary.json: ''
            @ ''An error occurred (NoSuchKey) when calling the GetObject operation: ''
            @ ''The specified key does not exist.''))"
    by (simp add: load_from_s3_def try_load_def get_object_def sample_store_def folder_path_def)
  with a C9_missing_artifact [of sample_store "''nadex''" "''backtest/results''" None
      "\<lambda>body. Inr body" "\<lambda>body. Inr (Map.empty :: string \<rightharpoonup> string)" "[]" "''2026''"]
  show ?thesis
    by simp
qed

end
